theory Spec2Isabelle
  imports Complex_Main
begin

section \<open>Numbers\<close>

text \<open>
  A JavaScript number is an IEEE 754 double. The model keeps a finite double as the
  rational number it stands for, next to \<^verbatim>\<open>NaN\<close> and the two infinities. The two
  zeros are one value: the service only adds, subtracts, multiplies and compares, and
  none of these tells them apart. A document holds a double; the type also admits a
  rational that is none, about which nothing is assumed.
\<close>

datatype number = NaN | PosInfinity | NegInfinity | Finite rat

definition pow2 :: "int \<Rightarrow> rat" where
  "pow2 e = (if 0 \<le> e then 2 ^ nat e else 1 / 2 ^ nat (- e))"

text \<open>The position of the leading bit: \<open>\<lfloor>log\<^sub>2 n\<rfloor>\<close> for \<open>n \<ge> 1\<close>, and for a positive rational.\<close>

fun log2_floor_nat :: "nat \<Rightarrow> nat" where
  "log2_floor_nat n = (if n < 2 then 0 else Suc (log2_floor_nat (n div 2)))"

declare log2_floor_nat.simps [simp del]

definition log2_floor :: "rat \<Rightarrow> int" where
  "log2_floor a =
     (if 1 \<le> a then int (log2_floor_nat (nat \<lfloor>a\<rfloor>))
      else (let j = int (log2_floor_nat (nat \<lfloor>1 / a\<rfloor>))
            in if a = pow2 (- j) then - j else - j - 1))"

text \<open>Rounding to the nearest integer, a tie going to the even one.\<close>

definition round_half_even :: "rat \<Rightarrow> int" where
  "round_half_even q =
     (let f = \<lfloor>q\<rfloor>; d = q - of_int f
      in if d < 1 / 2 then f else if 1 / 2 < d then f + 1
         else if even f then f else f + 1)"

text \<open>
  Rounding a positive rational to 53 significant bits: the unit in the last place is
  \<open>2\<^sup>e\<^sup>-\<^sup>5\<^sup>2\<close> for the exponent \<open>e\<close> of the number, and \<open>2\<^sup>-\<^sup>1\<^sup>0\<^sup>7\<^sup>4\<close> below the normal
  range. The result of an operation on doubles is the exact result rounded; a result
  that rounds to \<open>2\<^sup>1\<^sup>0\<^sup>2\<^sup>4\<close> or more is an infinity.
\<close>

definition round_magnitude :: "rat \<Rightarrow> rat" where
  "round_magnitude a =
     (let e = max (log2_floor a) (- 1022);
          ulp = pow2 (e - 52)
      in of_int (round_half_even (a / ulp)) * ulp)"

definition round_double :: "rat \<Rightarrow> number" where
  "round_double x =
     (if x = 0 then Finite 0
      else
        (let r = round_magnitude \<bar>x\<bar>
         in if pow2 1024 \<le> r then (if 0 < x then PosInfinity else NegInfinity)
            else Finite (if 0 < x then r else - r)))"

text \<open>The operators \<^verbatim>\<open>+\<close>, \<^verbatim>\<open>-\<close>, \<^verbatim>\<open>*\<close>, \<^verbatim>\<open><\<close> and \<^verbatim>\<open>>=\<close> on numbers.\<close>

fun js_neg :: "number \<Rightarrow> number" where
  "js_neg NaN = NaN"
| "js_neg PosInfinity = NegInfinity"
| "js_neg NegInfinity = PosInfinity"
| "js_neg (Finite a) = Finite (- a)"

fun js_add :: "number \<Rightarrow> number \<Rightarrow> number" where
  "js_add (Finite a) (Finite b) = round_double (a + b)"
| "js_add NaN y = NaN"
| "js_add x NaN = NaN"
| "js_add PosInfinity NegInfinity = NaN"
| "js_add NegInfinity PosInfinity = NaN"
| "js_add PosInfinity y = PosInfinity"
| "js_add x PosInfinity = PosInfinity"
| "js_add NegInfinity y = NegInfinity"
| "js_add x NegInfinity = NegInfinity"

definition js_sub :: "number \<Rightarrow> number \<Rightarrow> number" where
  "js_sub x y = js_add x (js_neg y)"

fun js_mul :: "number \<Rightarrow> number \<Rightarrow> number" where
  "js_mul (Finite a) (Finite b) = round_double (a * b)"
| "js_mul NaN y = NaN"
| "js_mul x NaN = NaN"
| "js_mul (Finite a) PosInfinity =
     (if a = 0 then NaN else if 0 < a then PosInfinity else NegInfinity)"
| "js_mul (Finite a) NegInfinity =
     (if a = 0 then NaN else if 0 < a then NegInfinity else PosInfinity)"
| "js_mul PosInfinity (Finite b) =
     (if b = 0 then NaN else if 0 < b then PosInfinity else NegInfinity)"
| "js_mul NegInfinity (Finite b) =
     (if b = 0 then NaN else if 0 < b then NegInfinity else PosInfinity)"
| "js_mul PosInfinity PosInfinity = PosInfinity"
| "js_mul PosInfinity NegInfinity = NegInfinity"
| "js_mul NegInfinity PosInfinity = NegInfinity"
| "js_mul NegInfinity NegInfinity = PosInfinity"

fun js_lt :: "number \<Rightarrow> number \<Rightarrow> bool" where
  "js_lt (Finite a) (Finite b) \<longleftrightarrow> a < b"
| "js_lt NaN y \<longleftrightarrow> False"
| "js_lt x NaN \<longleftrightarrow> False"
| "js_lt x NegInfinity \<longleftrightarrow> False"
| "js_lt PosInfinity y \<longleftrightarrow> False"
| "js_lt NegInfinity y \<longleftrightarrow> True"
| "js_lt x PosInfinity \<longleftrightarrow> True"

definition js_ge :: "number \<Rightarrow> number \<Rightarrow> bool" where
  "js_ge x y \<longleftrightarrow> x \<noteq> NaN \<and> y \<noteq> NaN \<and> \<not> js_lt x y"

section \<open>Identifiers\<close>

text \<open>
  The \<^verbatim>\<open>_id\<close> of a document is an ObjectId, kept here as the string that
  \<^verbatim>\<open>toString()\<close> gives: 24 hexadecimal digits, the letters in lower case. A query by
  \<^verbatim>\<open>_id\<close> casts the string it is given to an ObjectId: 24 hexadecimal digits in either
  case are read as the identifier they spell. The identifiers the service receives have
  passed the validation of the request; any other string is taken to fail the cast, and
  the query is rejected. The comparisons the service itself makes
  (\<^verbatim>\<open>items.product._id == productId\<close>, \<^verbatim>\<open>_id.toString() === productId\<close>) compare the
  stored string with the string given, character by character.
\<close>

definition is_hex_digit :: "char \<Rightarrow> bool" where
  "is_hex_digit c \<longleftrightarrow> c \<in> set ''0123456789abcdefABCDEF''"

definition hex_lower :: "char \<Rightarrow> char" where
  "hex_lower c =
     (if c = CHR ''A'' then CHR ''a'' else if c = CHR ''B'' then CHR ''b''
      else if c = CHR ''C'' then CHR ''c'' else if c = CHR ''D'' then CHR ''d''
      else if c = CHR ''E'' then CHR ''e'' else if c = CHR ''F'' then CHR ''f'' else c)"

definition ObjectId_cast :: "string \<Rightarrow> string option" where
  "ObjectId_cast i =
     (if length i = 24 \<and> list_all is_hex_digit i then Some (map hex_lower i) else None)"

section \<open>Data model\<close>

text \<open>
  The documents the cart service of \<^verbatim>\<open>src/services/cart.service.js\<close> reads and
  writes. Of a product the service reads the \<^verbatim>\<open>_id\<close> and the \<^verbatim>\<open>cost\<close> only.
\<close>

record Product =
  product_id :: string
  cost :: number

record CartItem =
  product :: Product
  quantity :: number

record Cart =
  cart_id :: string
  cart_email :: string
  cartItems :: "CartItem list"

text \<open>The fields of \<^verbatim>\<open>userSchema\<close> in \<^verbatim>\<open>src/models/user.model.js\<close>.\<close>

record User =
  user_id :: string
  name :: string
  email :: string
  password :: string
  walletMoney :: number
  address :: string

text \<open>
  \<^verbatim>\<open>config/config.js\<close> is not among the sources; the two values the user model reads
  from it are taken as parameters.
\<close>

record config =
  default_wallet_money :: number
  default_address :: string

text \<open>
  The three collections of the document store, each the sequence of its documents. The
  models \<^verbatim>\<open>Cart\<close> and \<^verbatim>\<open>Product\<close> are not among the sources; their fields are
  the ones the service reads and writes.
\<close>

record db =
  carts :: "Cart list"
  products :: "Product list"
  users :: "User list"

subsection \<open>Errors\<close>

text \<open>
  \<^verbatim>\<open>new ApiError(status, message)\<close> carries an HTTP status of the \<^verbatim>\<open>http-status\<close>
  package and a message. A rejected write of the store and a failed cast of an
  identifier are not an \<^verbatim>\<open>ApiError\<close>: the service has no \<^verbatim>\<open>try\<close>/\<^verbatim>\<open>catch\<close>, so the
  rejection of an awaited call leaves the service as it is.
\<close>

datatype error = ApiError nat string | StoreRejection | CastError

abbreviation BAD_REQUEST :: nat where
  "BAD_REQUEST \<equiv> 400"

abbreviation NOT_FOUND :: nat where
  "NOT_FOUND \<equiv> 404"

abbreviation INTERNAL_SERVER_ERROR :: nat where
  "INTERNAL_SERVER_ERROR \<equiv> 500"

section \<open>The document store\<close>

text \<open>
  Whether a write succeeds is decided by the store, outside the service. The outcome of
  each kind of write is a parameter of every operation: \<^verbatim>\<open>Cart.create\<close> may resolve to
  a document, resolve to nothing (the case the service tests with
  \<^verbatim>\<open>if (!productToCartDoc)\<close>) or reject; a \<^verbatim>\<open>save()\<close> resolves or rejects.
\<close>

datatype create_outcome = Created | CreatedNothing | CreateRejected

record persistence =
  cartCreate :: create_outcome
  cartSave :: bool
  userSave :: bool

text \<open>A query returns the first document of the collection that matches.\<close>

definition Cart_findOne :: "db \<Rightarrow> string \<Rightarrow> Cart option" where
  "Cart_findOne s e = find (\<lambda>c. cart_email c = e) (carts s)"

definition Product_findById :: "db \<Rightarrow> string \<Rightarrow> error + Product option" where
  "Product_findById s i =
     (case ObjectId_cast i of
        None \<Rightarrow> Inl CastError
      | Some oid \<Rightarrow> Inr (find (\<lambda>p. product_id p = oid) (products s)))"

definition User_findById :: "db \<Rightarrow> string \<Rightarrow> User option" where
  "User_findById s i = find (\<lambda>u. user_id u = i) (users s)"

text \<open>
  \<^verbatim>\<open>doc.save()\<close> of a document that was loaded or created writes it under its
  \<^verbatim>\<open>_id\<close>: an accepted save replaces the stored document of that \<^verbatim>\<open>_id\<close> and
  inserts nothing. A rejected save leaves the collection as it was. The
  \<^verbatim>\<open>pre('save')\<close> hook of the user schema only hashes a password that was modified,
  which no operation of the cart service does.
\<close>

definition save_doc :: "('a \<Rightarrow> string) \<Rightarrow> 'a \<Rightarrow> 'a list \<Rightarrow> 'a list" where
  "save_doc key d ds = map (\<lambda>x. if key x = key d then d else x) ds"

definition Cart_save :: "persistence \<Rightarrow> Cart \<Rightarrow> db \<Rightarrow> (error + Cart) \<times> db" where
  "Cart_save p c s =
     (if cartSave p then (Inr c, s\<lparr>carts := save_doc cart_id c (carts s)\<rparr>)
      else (Inl StoreRejection, s))"

definition User_save :: "persistence \<Rightarrow> User \<Rightarrow> db \<Rightarrow> (error + User) \<times> db" where
  "User_save p u s =
     (if userSave p then (Inr u, s\<lparr>users := save_doc user_id u (users s)\<rparr>)
      else (Inl StoreRejection, s))"

definition Cart_create :: "persistence \<Rightarrow> Cart \<Rightarrow> db \<Rightarrow> (error + Cart option) \<times> db" where
  "Cart_create p c s =
     (case cartCreate p of
        Created \<Rightarrow> (Inr (Some c), s\<lparr>carts := carts s @ [c]\<rparr>)
      | CreatedNothing \<Rightarrow> (Inr None, s)
      | CreateRejected \<Rightarrow> (Inl StoreRejection, s))"

section \<open>The user model\<close>

text \<open>\<^verbatim>\<open>userSchema.methods.hasSetNonDefaultAddress\<close>.\<close>

definition hasSetNonDefaultAddress :: "config \<Rightarrow> User \<Rightarrow> bool" where
  "hasSetNonDefaultAddress cfg user \<longleftrightarrow> address user \<noteq> default_address cfg"

section \<open>The cart service\<close>

text \<open>
  Every operation takes the outcome of the writes and the store, and returns what the
  caller receives (the error thrown, or the value returned) with the store it leaves.
\<close>

definition getCartByUser :: "db \<Rightarrow> User \<Rightarrow> error + Cart" where
  "getCartByUser s user =
     (case Cart_findOne s (email user) of
        None \<Rightarrow> Inl (ApiError NOT_FOUND ''User does not have a cart'')
      | Some CartDoc \<Rightarrow> Inr CartDoc)"

definition addProductToCart ::
    "persistence \<Rightarrow> db \<Rightarrow> User \<Rightarrow> string \<Rightarrow> number \<Rightarrow> (error + Cart) \<times> db" where
  "addProductToCart p s user productId qty =
     (case Product_findById s productId of
        Inl e \<Rightarrow> (Inl e, s)
      | Inr None \<Rightarrow> (Inl (ApiError BAD_REQUEST ''Product doesn't exist in database''), s)
      | Inr (Some ProductDoc) \<Rightarrow>
          (case Cart_findOne s (email user) of
             None \<Rightarrow>
               (case Cart_create p
                       \<lparr>cart_id = user_id user, cart_email = email user,
                        cartItems = [\<lparr>product = ProductDoc, quantity = qty\<rparr>]\<rparr> s of
                  (Inl e, s1) \<Rightarrow> (Inl e, s1)
                | (Inr None, s1) \<Rightarrow>
                    (Inl (ApiError INTERNAL_SERVER_ERROR ''Cart creation fails''), s1)
                | (Inr (Some productToCartDoc), s1) \<Rightarrow> Cart_save p productToCartDoc s1)
           | Some CartDoc \<Rightarrow>
               if list_ex (\<lambda>items. product_id (product items) = productId) (cartItems CartDoc)
               then (Inl (ApiError BAD_REQUEST
                 ''Product already in cart. Use the cart sidebar to update or remove product from cart''), s)
               else Cart_save p
                      (CartDoc\<lparr>cartItems :=
                         cartItems CartDoc @ [\<lparr>product = ProductDoc, quantity = qty\<rparr>]\<rparr>) s))"

definition updateProductInCart ::
    "persistence \<Rightarrow> db \<Rightarrow> User \<Rightarrow> string \<Rightarrow> number \<Rightarrow> (error + Cart) \<times> db" where
  "updateProductInCart p s user productId qty =
     (case Cart_findOne s (email user) of
        None \<Rightarrow> (Inl (ApiError BAD_REQUEST
          ''User does not have a cart. Use POST to create cart and add a product''), s)
      | Some userCart \<Rightarrow>
          (case Product_findById s productId of
             Inl e \<Rightarrow> (Inl e, s)
           | Inr None \<Rightarrow>
               (Inl (ApiError BAD_REQUEST ''Product doesn't exist in database''), s)
           | Inr (Some ProductDoc) \<Rightarrow>
               (case find (\<lambda>items. product_id (product items) = productId) (cartItems userCart) of
                  None \<Rightarrow> (Inl (ApiError BAD_REQUEST ''Product not in cart''), s)
                | Some updateProduct \<Rightarrow>
                    Cart_save p
                      (userCart\<lparr>cartItems :=
                         map (\<lambda>items. if product_id (product items) = productId
                                       then items\<lparr>quantity := qty\<rparr> else items)
                             (cartItems userCart)\<rparr>) s)))"

text \<open>
  The loop of \<^verbatim>\<open>deleteProductFromCart\<close>: \<^verbatim>\<open>index\<close> starts at \<open>-1\<close> and is
  overwritten at every matching position, so it ends at the last one.
\<close>

fun forEach_index :: "string \<Rightarrow> CartItem list \<Rightarrow> nat \<Rightarrow> int \<Rightarrow> int" where
  "forEach_index productId [] i index = index"
| "forEach_index productId (ele # rest) i index =
     forEach_index productId rest (Suc i)
       (if product_id (product ele) = productId then int i else index)"

text \<open>
  \<^verbatim>\<open>array.splice(index, 1)\<close>: a negative start counts from the end, the start is
  clamped to the array, and at most one element is removed.
\<close>

definition splice1 :: "int \<Rightarrow> 'a list \<Rightarrow> 'a list" where
  "splice1 index xs =
     (let len = int (length xs);
          start = (if index < 0 then max (len + index) 0 else min index len)
      in take (nat start) xs @ drop (Suc (nat start)) xs)"

definition deleteProductFromCart ::
    "persistence \<Rightarrow> db \<Rightarrow> User \<Rightarrow> string \<Rightarrow> (error + Cart) \<times> db" where
  "deleteProductFromCart p s user productId =
     (case Cart_findOne s (email user) of
        None \<Rightarrow> (Inl (ApiError BAD_REQUEST
          ''User does not have a cart. Use POST to create cart and add a product''), s)
      | Some userCart \<Rightarrow>
          (case find (\<lambda>items. product_id (product items) = productId) (cartItems userCart) of
             None \<Rightarrow> (Inl (ApiError BAD_REQUEST ''Product not in cart''), s)
           | Some deleteProduct \<Rightarrow>
               (let index = forEach_index productId (cartItems userCart) 0 (- 1)
                in Cart_save p
                     (userCart\<lparr>cartItems := splice1 index (cartItems userCart)\<rparr>) s)))"

text \<open>
  The pricing loop of \<^verbatim>\<open>checkout\<close>, with its accumulator \<^verbatim>\<open>total\<close> (here \<open>acc\<close>):
  every product and every partial sum is a double.
\<close>

fun checkout_total :: "CartItem list \<Rightarrow> number \<Rightarrow> number" where
  "checkout_total [] acc = acc"
| "checkout_total (element # rest) acc =
     checkout_total rest (js_add acc (js_mul (quantity element) (cost (product element))))"

definition checkout :: "config \<Rightarrow> persistence \<Rightarrow> db \<Rightarrow> User \<Rightarrow> (error + User) \<times> db" where
  "checkout cfg p s user =
     (case getCartByUser s user of
        Inl e \<Rightarrow> (Inl e, s)
      | Inr userCart \<Rightarrow>
          if length (cartItems userCart) = 0
          then (Inl (ApiError BAD_REQUEST ''User's cart doesn't have any product''), s)
          else if \<not> hasSetNonDefaultAddress cfg user
          then (Inl (ApiError BAD_REQUEST ''Address not set''), s)
          else
            (let totalCost = checkout_total (cartItems userCart) (Finite 0) in
             if js_lt (walletMoney user) totalCost
             then (Inl (ApiError BAD_REQUEST ''Wallet balance is insufficient''), s)
             else
               (let currentBalance = js_sub (walletMoney user) totalCost in
                case Cart_save p (userCart\<lparr>cartItems := []\<rparr>) s of
                  (Inl e, s1) \<Rightarrow> (Inl e, s1)
                | (Inr saved, s1) \<Rightarrow>
                    (case User_save p (user\<lparr>walletMoney := currentBalance\<rparr>) s1 of
                       (Inl e, s2) \<Rightarrow> (Inl e, s2)
                     | (Inr u, s2) \<Rightarrow> (Inr u, s2)))))"

section \<open>Properties stated by the specification\<close>

text \<open>
  The cart uniqueness invariant of the data model: at most one line item for each
  product identifier.
\<close>

definition uniqueProducts :: "Cart \<Rightarrow> bool" where
  "uniqueProducts c \<longleftrightarrow> distinct (map (\<lambda>items. product_id (product items)) (cartItems c))"

text \<open>
  The price of a cart as the specification writes it: the sum, in exact arithmetic, of
  quantity times cost over the line items (of finite amounts).
\<close>

definition finite_value :: "number \<Rightarrow> rat" where
  "finite_value x = (case x of Finite q \<Rightarrow> q | _ \<Rightarrow> 0)"

definition cart_price :: "CartItem list \<Rightarrow> rat" where
  "cart_price its = (\<Sum>i\<leftarrow>its. finite_value (quantity i) * finite_value (cost (product i)))"

subsection \<open>Example data\<close>

text \<open>
  The checkout scenario of the specification: two line items of costs 100 and 50, in
  quantities 2 and 1, and a user with a shipping address. The third identifier of a
  product is also written in upper case.
\<close>

definition cfg0 :: config where
  "cfg0 = \<lparr>default_wallet_money = Finite 500, default_address = ''ADDRESS_NOT_SET''\<rparr>"

definition idA :: string where
  "idA = ''5f71c1ca04c69a5874e9fd45''"

definition idB :: string where
  "idB = ''5f71c1ca04c69a5874e9fd46''"

definition idC :: string where
  "idC = ''5f71c1ca04c69a5874e9fd4a''"

definition idA_upper :: string where
  "idA_upper = ''5F71C1CA04C69A5874E9FD45''"

definition productA :: Product where
  "productA = \<lparr>product_id = idA, cost = Finite 100\<rparr>"

definition productB :: Product where
  "productB = \<lparr>product_id = idB, cost = Finite 50\<rparr>"

definition productC :: Product where
  "productC = \<lparr>product_id = idC, cost = Finite 70\<rparr>"

definition user0 :: User where
  "user0 = \<lparr>user_id = ''600a695da6e5b6845906e726'', name = ''crio'',
            email = ''crio@example.com'', password = ''password1'',
            walletMoney = Finite 300, address = ''12 Main Street''\<rparr>"

definition cart0 :: Cart where
  "cart0 = \<lparr>cart_id = ''600a695da6e5b6845906e726'', cart_email = ''crio@example.com'',
            cartItems = [\<lparr>product = productA, quantity = Finite 2\<rparr>,
                         \<lparr>product = productB, quantity = Finite 1\<rparr>]\<rparr>"

definition db0 :: db where
  "db0 = \<lparr>carts = [cart0], products = [productA, productB, productC], users = [user0]\<rparr>"

definition writes_ok :: persistence where
  "writes_ok = \<lparr>cartCreate = Created, cartSave = True, userSave = True\<rparr>"

text \<open>
  Amounts at the edge of the integers a double holds exactly: costs \<open>2\<^sup>5\<^sup>3\<close>, 3 and 3 in
  one cart, costs \<open>2\<^sup>5\<^sup>3\<close> and 1 in another, each in quantity 1.
\<close>

definition cart_large :: Cart where
  "cart_large = cart0\<lparr>cartItems :=
     [\<lparr>product = productA\<lparr>cost := Finite 9007199254740992\<rparr>, quantity = Finite 1\<rparr>,
      \<lparr>product = productB\<lparr>cost := Finite 3\<rparr>, quantity = Finite 1\<rparr>,
      \<lparr>product = productC\<lparr>cost := Finite 3\<rparr>, quantity = Finite 1\<rparr>]\<rparr>"

definition cart_odd :: Cart where
  "cart_odd = cart0\<lparr>cartItems :=
     [\<lparr>product = productA\<lparr>cost := Finite 9007199254740992\<rparr>, quantity = Finite 1\<rparr>,
      \<lparr>product = productB\<lparr>cost := Finite 1\<rparr>, quantity = Finite 1\<rparr>]\<rparr>"

section \<open>Auxiliary facts\<close>

subsection \<open>Rounding\<close>

text \<open>
  An integer of magnitude at most \<open>2\<^sup>5\<^sup>3\<close> is a double: rounding leaves it as it is.
  Beyond, every second integer is a double and a tie goes to the even significand.
\<close>

lemma log2_floor_nat_bounds:
  "0 < n \<Longrightarrow> 2 ^ log2_floor_nat n \<le> n \<and> n < 2 ^ Suc (log2_floor_nat n)"
proof (induction n rule: log2_floor_nat.induct)
  case (1 n)
  show ?case
  proof (cases "n < 2")
    case True
    with "1.prems" have "n = 1" by simp
    then show ?thesis by (simp add: log2_floor_nat.simps)
  next
    case False
    then have "0 < n div 2" by simp
    with "1.IH" False
    have ih: "2 ^ log2_floor_nat (n div 2) \<le> n div 2"
      "n div 2 < 2 ^ Suc (log2_floor_nat (n div 2))"
      by simp_all
    have e: "log2_floor_nat n = Suc (log2_floor_nat (n div 2))"
      using False by (subst log2_floor_nat.simps) simp
    from ih(1) have "2 * 2 ^ log2_floor_nat (n div 2) \<le> n" by linarith
    moreover from ih(2) have "n < 2 * 2 ^ Suc (log2_floor_nat (n div 2))" by linarith
    ultimately show ?thesis by (simp add: e)
  qed
qed

lemma round_half_even_int: "round_half_even (of_int k) = k"
  by (simp add: round_half_even_def)

lemma round_magnitude_nat:
  assumes "0 < n" and "n \<le> 2 ^ 53"
  shows "round_magnitude (of_nat n) = of_nat n"
proof -
  let ?k = "log2_floor_nat n"
  from log2_floor_nat_bounds [OF assms(1)]
  have b: "2 ^ ?k \<le> n" "n < 2 ^ Suc ?k" by simp_all
  have k53: "?k \<le> 53"
  proof (rule ccontr)
    assume "\<not> ?k \<le> 53"
    then have "(2::nat) ^ 54 \<le> 2 ^ ?k" by (intro power_increasing) simp_all
    with b(1) assms(2) show False by simp
  qed
  have a1: "(1::rat) \<le> of_nat n" using assms(1) by simp
  have lf: "log2_floor (of_nat n) = int ?k"
    using a1 by (simp add: log2_floor_def)
  have mx: "max (int ?k) (- 1022) = int ?k" by simp
  have step: "round_magnitude (of_nat n) =
      of_int (round_half_even (of_nat n / pow2 (int ?k - 52))) * pow2 (int ?k - 52)"
    unfolding round_magnitude_def lf mx Let_def ..
  show ?thesis
  proof (cases "?k \<le> 52")
    case True
    define d where "d = 52 - ?k"
    have ulp: "pow2 (int ?k - 52) = 1 / 2 ^ d"
      using True by (cases "?k = 52") (auto simp: pow2_def d_def nat_diff_distrib')
    have q: "(of_nat n :: rat) / (1 / 2 ^ d) = of_int (int (n * 2 ^ d))" by simp
    show ?thesis
      unfolding step ulp q round_half_even_int by simp
  next
    case False
    with k53 have k: "?k = 53" by simp
    with b(1) assms(2) have n: "n = 2 ^ 53" by simp
    have ulp: "pow2 (int ?k - 52) = 2" by (simp add: k pow2_def)
    have q: "(of_nat n :: rat) / 2 = of_int (2 ^ 52)" by (simp add: n)
    show ?thesis
      unfolding step ulp q round_half_even_int by (simp add: n)
  qed
qed

lemma round_double_int_exact:
  assumes "\<bar>k\<bar> \<le> 2 ^ 53"
  shows "round_double (of_int k) = Finite (of_int k)"
proof (cases "k = 0")
  case True
  then show ?thesis by (simp add: round_double_def)
next
  case False
  define n where "n = nat \<bar>k\<bar>"
  have n: "0 < n" "n \<le> 2 ^ 53" using False assms by (simp_all add: n_def nat_le_iff)
  have abs: "\<bar>of_int k :: rat\<bar> = of_nat n" by (simp add: n_def)
  have m: "round_magnitude \<bar>of_int k\<bar> = of_nat n"
    unfolding abs by (rule round_magnitude_nat [OF n])
  have "(of_nat n :: rat) \<le> 2 ^ 53" using n(2)
    by (metis of_nat_le_iff of_nat_numeral of_nat_power)
  also have "\<dots> < 2 ^ 1024" by simp
  finally have small: "\<not> pow2 1024 \<le> (of_nat n :: rat)" by (simp add: pow2_def)
  have pos: "0 < k \<Longrightarrow> (of_nat n :: rat) = of_int k"
    and neg: "\<not> 0 < k \<Longrightarrow> - (of_nat n :: rat) = of_int k"
    using False by (simp_all add: n_def)
  show ?thesis
    using False small pos neg by (simp add: round_double_def Let_def m)
qed

lemma round_double_numeral [simp]:
  "(numeral k :: int) \<le> 9007199254740992 \<Longrightarrow> round_double (numeral k) = Finite (numeral k)"
  using round_double_int_exact [of "numeral k"] by simp

lemma round_double_neg_numeral [simp]:
  "(numeral k :: int) \<le> 9007199254740992 \<Longrightarrow>
   round_double (- numeral k) = Finite (- numeral k)"
  using round_double_int_exact [of "- numeral k"] by simp

lemma round_double_0 [simp]: "round_double 0 = Finite 0"
  by (simp add: round_double_def)

lemma round_double_1 [simp]: "round_double 1 = Finite 1"
  using round_double_int_exact [of 1] by simp

lemma floor_rat_numeral_div [simp]:
  "\<lfloor>numeral a / numeral b :: rat\<rfloor> = numeral a div numeral b"
  by (metis floor_divide_of_int_eq of_int_numeral)

lemma round_magnitude_2p53_1: "round_magnitude 9007199254740993 = 9007199254740992"
  apply (simp add: round_magnitude_def Let_def)
  apply (simp add: log2_floor_def Let_def)
  apply (simp add: log2_floor_nat.simps)
  apply (simp add: pow2_def)
  apply (simp add: round_half_even_def Let_def)
  done

lemma round_magnitude_2p53_3: "round_magnitude 9007199254740995 = 9007199254740996"
  apply (simp add: round_magnitude_def Let_def)
  apply (simp add: log2_floor_def Let_def)
  apply (simp add: log2_floor_nat.simps)
  apply (simp add: pow2_def)
  apply (simp add: round_half_even_def Let_def)
  done

lemma round_magnitude_2p53_7: "round_magnitude 9007199254740999 = 9007199254741000"
  apply (simp add: round_magnitude_def Let_def)
  apply (simp add: log2_floor_def Let_def)
  apply (simp add: log2_floor_nat.simps)
  apply (simp add: pow2_def)
  apply (simp add: round_half_even_def Let_def)
  done

lemma round_double_2p53_1: "round_double 9007199254740993 = Finite 9007199254740992"
  by (simp add: round_double_def round_magnitude_2p53_1 pow2_def)

lemma round_double_2p53_3: "round_double 9007199254740995 = Finite 9007199254740996"
  by (simp add: round_double_def round_magnitude_2p53_3 pow2_def)

lemma round_double_2p53_7: "round_double 9007199254740999 = Finite 9007199254741000"
  by (simp add: round_double_def round_magnitude_2p53_7 pow2_def)

lemma js_ge_not_lt: "js_ge x y \<Longrightarrow> \<not> js_lt x y"
  by (simp add: js_ge_def)

subsection \<open>Whole amounts\<close>

text \<open>
  When the quantities and the costs are whole and non-negative and the sum of quantity
  times cost is at most \<open>2\<^sup>5\<^sup>3\<close>, no step of the pricing loop rounds: the total computed
  is the sum.
\<close>

lemma round_double_nat_exact:
  assumes "n \<le> 2 ^ 53"
  shows "round_double (of_nat n) = Finite (of_nat n)"
proof -
  from assms have "int n \<le> int (2 ^ 53)" by (simp only: of_nat_le_iff)
  then have "\<bar>int n\<bar> \<le> 2 ^ 53" by simp
  from round_double_int_exact [OF this] show ?thesis by simp
qed

lemma cart_price_Cons:
  "cart_price (i # its) =
     finite_value (quantity i) * finite_value (cost (product i)) + cart_price its"
  by (simp add: cart_price_def)

lemma cart_price_nonneg:
  assumes "\<forall>i \<in> set its. \<exists>q c. quantity i = Finite (of_nat q) \<and> cost (product i) = Finite (of_nat c)"
  shows "0 \<le> cart_price its"
  using assms
proof (induction its)
  case Nil
  then show ?case by (simp add: cart_price_def)
next
  case (Cons i its)
  then obtain q c where "quantity i = Finite (of_nat q)" "cost (product i) = Finite (of_nat c)"
    by auto
  then have "0 \<le> finite_value (quantity i) * finite_value (cost (product i))"
    by (simp add: finite_value_def)
  moreover have "0 \<le> cart_price its" using Cons by simp
  ultimately show ?case unfolding cart_price_Cons by simp
qed

lemma checkout_total_exact:
  assumes "\<forall>i \<in> set its. \<exists>q c. quantity i = Finite (of_nat q) \<and> cost (product i) = Finite (of_nat c)"
    and "of_nat a + cart_price its \<le> 2 ^ 53"
  shows "checkout_total its (Finite (of_nat a)) = Finite (of_nat a + cart_price its)"
  using assms
proof (induction its arbitrary: a)
  case Nil
  then show ?case by (simp add: cart_price_def)
next
  case (Cons i its)
  from Cons.prems(1) obtain q c
    where qc: "quantity i = Finite (of_nat q)" "cost (product i) = Finite (of_nat c)"
    by auto
  have rest: "\<forall>i\<in>set its. \<exists>q c. quantity i = Finite (of_nat q) \<and> cost (product i) = Finite (of_nat c)"
    using Cons.prems(1) by simp
  have nonneg: "0 \<le> cart_price its" by (rule cart_price_nonneg [OF rest])
  have pr: "cart_price (i # its) = of_nat (q * c) + cart_price its"
    unfolding cart_price_Cons qc by (simp add: finite_value_def)
  have b2: "(of_nat (a + q * c) :: rat) + cart_price its \<le> 2 ^ 53"
    using Cons.prems(2) unfolding pr by (simp add: algebra_simps)
  with nonneg have "(of_nat (a + q * c) :: rat) \<le> of_nat (2 ^ 53)" by simp
  then have bn: "a + q * c \<le> 2 ^ 53" by (simp only: of_nat_le_iff)
  then have bq: "q * c \<le> 2 ^ 53" by simp
  have m: "js_mul (quantity i) (cost (product i)) = Finite (of_nat (q * c))"
    unfolding qc js_mul.simps using round_double_nat_exact [OF bq] by (simp only: of_nat_mult)
  have s: "js_add (Finite (of_nat a)) (Finite (of_nat (q * c))) = Finite (of_nat (a + q * c))"
    unfolding js_add.simps using round_double_nat_exact [OF bn] by (simp only: of_nat_add)
  have "checkout_total (i # its) (Finite (of_nat a)) =
      checkout_total its (Finite (of_nat (a + q * c)))"
    unfolding checkout_total.simps m s ..
  also have "\<dots> = Finite (of_nat (a + q * c) + cart_price its)"
    by (rule Cons.IH [OF rest b2])
  also have "\<dots> = Finite (of_nat a + cart_price (i # its))"
    unfolding pr by (simp add: algebra_simps)
  finally show ?case .
qed

lemma checkout_total_whole_amounts:
  assumes "\<forall>i \<in> set its. \<exists>q c. quantity i = Finite (of_nat q) \<and> cost (product i) = Finite (of_nat c)"
    and "cart_price its \<le> 2 ^ 53"
  shows "checkout_total its (Finite 0) = Finite (cart_price its)"
  using checkout_total_exact [OF assms(1), of 0] assms(2) by simp

subsection \<open>The examples\<close>

lemma ObjectId_cast_examples:
  "ObjectId_cast idA = Some idA" "ObjectId_cast idB = Some idB"
  "ObjectId_cast idC = Some idC" "ObjectId_cast idA_upper = Some idA"
  by (simp_all add: ObjectId_cast_def is_hex_digit_def hex_lower_def
      idA_def idB_def idC_def idA_upper_def)

lemma id_examples_distinct:
  "idA \<noteq> idB" "idB \<noteq> idA" "idA \<noteq> idC" "idC \<noteq> idA" "idB \<noteq> idC" "idC \<noteq> idB"
  "idA_upper \<noteq> idA" "idA \<noteq> idA_upper" "idA_upper \<noteq> idB" "idB \<noteq> idA_upper"
  "idA_upper \<noteq> idC" "idC \<noteq> idA_upper"
  by (simp_all add: idA_def idB_def idC_def idA_upper_def)

lemmas example_defs =
  cfg0_def productA_def productB_def productC_def user0_def cart0_def db0_def writes_ok_def
  cart_large_def cart_odd_def

lemmas id_facts = ObjectId_cast_examples id_examples_distinct

lemmas run_defs =
  addProductToCart_def updateProductInCart_def deleteProductFromCart_def checkout_def
  getCartByUser_def hasSetNonDefaultAddress_def Cart_findOne_def Product_findById_def
  User_findById_def Cart_save_def User_save_def Cart_create_def save_doc_def splice1_def
  js_sub_def Let_def

subsection \<open>Queries\<close>

lemma find_list_ex: "list_ex P xs \<Longrightarrow> \<exists>x. find P xs = Some x"
  by (cases "find P xs") (auto simp: find_None_iff list_ex_iff)

lemma Cart_findOne_email: "Cart_findOne s e = Some c \<Longrightarrow> cart_email c = e"
  by (auto simp: Cart_findOne_def find_Some_iff)

lemma Cart_findOne_users: "Cart_findOne (s\<lparr>users := us\<rparr>) e = Cart_findOne s e"
  by (simp add: Cart_findOne_def)

subsection \<open>The store after a save\<close>

text \<open>
  A query that found a document finds the saved one afterwards, when the save keeps the
  \<^verbatim>\<open>_id\<close> and the saved document still matches the query.
\<close>

lemma find_save_doc:
  assumes "find P ds = Some c" and "key c = key d" and "P d"
  shows "find P (save_doc key d ds) = Some d"
  using assms unfolding save_doc_def
  by (induction ds) (auto split: if_splits)

lemma find_key_save_doc:
  "find (\<lambda>x. key x = key d) (save_doc key d ds) =
   map_option (\<lambda>x. d) (find (\<lambda>x. key x = key d) ds)"
  unfolding save_doc_def by (induction ds) auto

lemma Cart_findOne_save:
  assumes "Cart_findOne s e = Some c" and "cart_id c' = cart_id c" and "cart_email c' = e"
  shows "Cart_findOne (s\<lparr>carts := save_doc cart_id c' (carts s)\<rparr>) e = Some c'"
  using assms find_save_doc [of "\<lambda>c. cart_email c = e" "carts s" c cart_id c']
  by (simp add: Cart_findOne_def)

lemma User_findById_save:
  "User_findById (s\<lparr>users := save_doc user_id u (users s)\<rparr>) (user_id u) =
   map_option (\<lambda>x. u) (User_findById s (user_id u))"
  using find_key_save_doc [of user_id u "users s"] by (simp add: User_findById_def)

subsection \<open>The index loop and the splice of the deletion\<close>

text \<open>
  When some line item matches, the loop ends at the position of the last match, which is
  a position of the list; the splice at a position of the list removes the element there.
\<close>

lemma forEach_index_none:
  "\<not> list_ex (\<lambda>x. product_id (product x) = pid) xs \<Longrightarrow> forEach_index pid xs i idx = idx"
  by (induction xs arbitrary: i idx) auto

lemma forEach_index_last:
  "list_ex (\<lambda>x. product_id (product x) = pid) xs \<Longrightarrow>
   \<exists>j < length xs. product_id (product (xs ! j)) = pid
      \<and> (\<forall>k. j < k \<and> k < length xs \<longrightarrow> product_id (product (xs ! k)) \<noteq> pid)
      \<and> forEach_index pid xs i idx = int (i + j)"
proof (induction xs arbitrary: i idx)
  case Nil
  then show ?case by simp
next
  case (Cons x xs)
  show ?case
  proof (cases "list_ex (\<lambda>x. product_id (product x) = pid) xs")
    case True
    from Cons.IH[OF True, of "Suc i" "(if product_id (product x) = pid then int i else idx)"]
    obtain j where j: "j < length xs" "product_id (product (xs ! j)) = pid"
      "\<forall>k. j < k \<and> k < length xs \<longrightarrow> product_id (product (xs ! k)) \<noteq> pid"
      "forEach_index pid xs (Suc i) (if product_id (product x) = pid then int i else idx) = int (Suc i + j)"
      by blast
    show ?thesis
    proof (intro exI[of _ "Suc j"] conjI allI impI)
      fix k assume "Suc j < k \<and> k < length (x # xs)"
      then show "product_id (product ((x # xs) ! k)) \<noteq> pid"
        using j(3) by (cases k) auto
    qed (use j in auto)
  next
    case False
    with Cons.prems have m: "product_id (product x) = pid" by simp
    have "forEach_index pid (x # xs) i idx = int i"
      using False m by (simp add: forEach_index_none)
    moreover have "\<forall>k. 0 < k \<and> k < length (x # xs) \<longrightarrow> product_id (product ((x # xs) ! k)) \<noteq> pid"
      using False by (auto simp: list_ex_iff nth_Cons split: nat.splits)
    ultimately show ?thesis using m by (intro exI[of _ 0]) auto
  qed
qed

lemma splice1_nat: "j < length xs \<Longrightarrow> splice1 (int j) xs = take j xs @ drop (Suc j) xs"
  by (simp add: splice1_def Let_def min_def)

section \<open>Checkout: success\<close>

text \<open>
  Claim C1 takes the total to be the sum of quantity times cost, and promises success to
  every wallet of at least that sum. The code accumulates the total in doubles, and a
  partial sum that is no double is rounded: with costs \<open>2\<^sup>5\<^sup>3\<close>, 3 and 3, each in
  quantity 1, the sum is \<open>2\<^sup>5\<^sup>3 + 6\<close> and the total the code reaches is \<open>2\<^sup>5\<^sup>3 + 8\<close>. A
  wallet of \<open>2\<^sup>5\<^sup>3 + 6\<close> covers the sum, and \<open>checkout\<close> fails for the insufficient
  balance.
\<close>

theorem checkout_rounded_total_exceeds_wallet:
  "Cart_findOne (db0\<lparr>carts := [cart_large]\<rparr>)
      (email (user0\<lparr>walletMoney := Finite 9007199254740998\<rparr>)) = Some cart_large
   \<and> cartItems cart_large \<noteq> []
   \<and> address (user0\<lparr>walletMoney := Finite 9007199254740998\<rparr>) \<noteq> default_address cfg0
   \<and> cart_price (cartItems cart_large) = 9007199254740998
   \<and> walletMoney (user0\<lparr>walletMoney := Finite 9007199254740998\<rparr>) = Finite 9007199254740998
   \<and> checkout_total (cartItems cart_large) (Finite 0) = Finite 9007199254741000
   \<and> checkout cfg0 writes_ok (db0\<lparr>carts := [cart_large]\<rparr>)
        (user0\<lparr>walletMoney := Finite 9007199254740998\<rparr>) =
       (Inl (ApiError BAD_REQUEST ''Wallet balance is insufficient''),
        db0\<lparr>carts := [cart_large]\<rparr>)"
proof -
  have t: "checkout_total (cartItems cart_large) (Finite 0) = Finite 9007199254741000"
    by (simp add: example_defs round_double_2p53_3 round_double_2p53_7)
  have pr: "cart_price (cartItems cart_large) = 9007199254740998"
    by (simp add: cart_price_def finite_value_def example_defs)
  have f: "Cart_findOne (db0\<lparr>carts := [cart_large]\<rparr>)
      (email (user0\<lparr>walletMoney := Finite 9007199254740998\<rparr>)) = Some cart_large"
    by (simp add: Cart_findOne_def example_defs)
  have ne: "cartItems cart_large \<noteq> []" by (simp add: example_defs)
  have ad: "address (user0\<lparr>walletMoney := Finite 9007199254740998\<rparr>) \<noteq> default_address cfg0"
    by (simp add: example_defs)
  have run: "checkout cfg0 writes_ok (db0\<lparr>carts := [cart_large]\<rparr>)
        (user0\<lparr>walletMoney := Finite 9007199254740998\<rparr>) =
       (Inl (ApiError BAD_REQUEST ''Wallet balance is insufficient''),
        db0\<lparr>carts := [cart_large]\<rparr>)"
    using f ne ad
    by (simp add: checkout_def getCartByUser_def hasSetNonDefaultAddress_def t)
  show ?thesis
    using f ne ad pr t run by simp
qed

text \<open>
  Claim C1, as the code has it. For every user with a non-empty cart, a shipping address
  other than the default, and a wallet that is \<^verbatim>\<open>>=\<close> the total as \<open>checkout\<close>
  computes it (the line items taken in order, each product of quantity and stored cost
  and each partial sum a double), \<open>checkout\<close> succeeds when the store accepts the two
  writes, as the specification assumes of its persistence layer: it returns the user
  with the wallet set to the double difference of wallet and total, the cart found for
  the user afterwards is the same cart document with an empty item list, and the stored
  user, if the user is stored, is the returned one.
\<close>

theorem checkout_success:
  assumes "Cart_findOne s (email user) = Some userCart"
    and "cartItems userCart \<noteq> []"
    and "address user \<noteq> default_address cfg"
    and "js_ge (walletMoney user) (checkout_total (cartItems userCart) (Finite 0))"
    and "cartSave p" and "userSave p"
  shows "checkout cfg p s user =
           (Inr (user\<lparr>walletMoney :=
                   js_sub (walletMoney user)
                     (checkout_total (cartItems userCart) (Finite 0))\<rparr>),
            s\<lparr>carts := save_doc cart_id (userCart\<lparr>cartItems := []\<rparr>) (carts s),
              users := save_doc user_id
                (user\<lparr>walletMoney :=
                   js_sub (walletMoney user)
                     (checkout_total (cartItems userCart) (Finite 0))\<rparr>)
                (users s)\<rparr>)
         \<and> Cart_findOne (snd (checkout cfg p s user)) (email user) =
             Some (userCart\<lparr>cartItems := []\<rparr>)
         \<and> User_findById (snd (checkout cfg p s user)) (user_id user) =
             map_option
               (\<lambda>stored. user\<lparr>walletMoney :=
                   js_sub (walletMoney user)
                     (checkout_total (cartItems userCart) (Finite 0))\<rparr>)
               (User_findById s (user_id user))"
proof -
  let ?u = "user\<lparr>walletMoney :=
      js_sub (walletMoney user) (checkout_total (cartItems userCart) (Finite 0))\<rparr>"
  let ?c = "userCart\<lparr>cartItems := []\<rparr>"
  let ?s1 = "s\<lparr>carts := save_doc cart_id ?c (carts s)\<rparr>"
  let ?s2 = "?s1\<lparr>users := save_doc user_id ?u (users ?s1)\<rparr>"
  have run: "checkout cfg p s user = (Inr ?u, ?s2)"
    using assms(1-3,5,6) js_ge_not_lt [OF assms(4)]
    by (simp add: checkout_def getCartByUser_def hasSetNonDefaultAddress_def
        Cart_save_def User_save_def Let_def)
  have em: "cart_email ?c = email user"
    using Cart_findOne_email [OF assms(1)] by simp
  have c: "Cart_findOne ?s1 (email user) = Some ?c"
    using Cart_findOne_save [OF assms(1), where c' = ?c] em by simp
  have c2: "Cart_findOne ?s2 (email user) = Some ?c"
    using c by (simp only: Cart_findOne_users)
  have u2: "User_findById ?s2 (user_id user) =
      map_option (\<lambda>stored. ?u) (User_findById s (user_id user))"
    using User_findById_save [where s = ?s1 and u = ?u] by (simp add: User_findById_def)
  show ?thesis
    using c2 u2 unfolding run by simp
qed

text \<open>
  The scenario of the specification: the total computed is the sum 250, the wallet 300
  becomes 50.
\<close>

theorem checkout_success_witness:
  "Cart_findOne db0 (email user0) = Some cart0
   \<and> cartItems cart0 \<noteq> []
   \<and> address user0 \<noteq> default_address cfg0
   \<and> checkout_total (cartItems cart0) (Finite 0) = Finite 250
   \<and> cart_price (cartItems cart0) = 250
   \<and> walletMoney user0 = Finite 300
   \<and> js_ge (walletMoney user0) (checkout_total (cartItems cart0) (Finite 0))
   \<and> cartSave writes_ok \<and> userSave writes_ok
   \<and> fst (checkout cfg0 writes_ok db0 user0) = Inr (user0\<lparr>walletMoney := Finite 50\<rparr>)
   \<and> Cart_findOne (snd (checkout cfg0 writes_ok db0 user0)) (email user0) =
       Some (cart0\<lparr>cartItems := []\<rparr>)
   \<and> User_findById (snd (checkout cfg0 writes_ok db0 user0)) (user_id user0) =
       Some (user0\<lparr>walletMoney := Finite 50\<rparr>)"
proof -
  have h1: "Cart_findOne db0 (email user0) = Some cart0"
    by (simp add: Cart_findOne_def example_defs)
  have h2: "cartItems cart0 \<noteq> []" by (simp add: cart0_def)
  have h3: "address user0 \<noteq> default_address cfg0" by (simp add: user0_def cfg0_def)
  have t: "checkout_total (cartItems cart0) (Finite 0) = Finite 250"
    by (simp add: example_defs)
  have pr: "cart_price (cartItems cart0) = 250"
    by (simp add: cart_price_def finite_value_def example_defs)
  have w: "walletMoney user0 = Finite 300" by (simp add: user0_def)
  have h4: "js_ge (walletMoney user0) (checkout_total (cartItems cart0) (Finite 0))"
    by (simp add: t w js_ge_def)
  have h5: "cartSave writes_ok" "userSave writes_ok" by (simp_all add: writes_ok_def)
  have pw: "js_sub (walletMoney user0) (checkout_total (cartItems cart0) (Finite 0)) = Finite 50"
    by (simp add: t w js_sub_def)
  have us: "User_findById db0 (user_id user0) = Some user0"
    by (simp add: User_findById_def example_defs)
  note run = checkout_success [OF h1 h2 h3 h4 h5, unfolded pw us option.map]
  from run have "checkout cfg0 writes_ok db0 user0 =
      (Inr (user0\<lparr>walletMoney := Finite 50\<rparr>),
       db0\<lparr>carts := save_doc cart_id (cart0\<lparr>cartItems := []\<rparr>) (carts db0),
           users := save_doc user_id (user0\<lparr>walletMoney := Finite 50\<rparr>) (users db0)\<rparr>)"
    by blast
  then have r: "fst (checkout cfg0 writes_ok db0 user0) = Inr (user0\<lparr>walletMoney := Finite 50\<rparr>)"
    by simp
  from run have c: "Cart_findOne (snd (checkout cfg0 writes_ok db0 user0)) (email user0) =
       Some (cart0\<lparr>cartItems := []\<rparr>)"
    by blast
  from run have u: "User_findById (snd (checkout cfg0 writes_ok db0 user0)) (user_id user0) =
       Some (user0\<lparr>walletMoney := Finite 50\<rparr>)"
    by blast
  show ?thesis
    using h1 h2 h3 t pr w h4 h5 r c u by (intro conjI)
qed

section \<open>Checkout: the two writes of the settlement\<close>

text \<open>
  Claim C2 says that the two writes of the settlement are one transaction and that a
  failed write is reported as an Internal failure. The code awaits
  \<^verbatim>\<open>userCart.save()\<close> and then \<^verbatim>\<open>user.save()\<close>, with nothing around them: when
  the store accepts the first and rejects the second, the rejection leaves
  \<open>checkout\<close> as it is (no \<^verbatim>\<open>ApiError\<close> of status 500 is built), and the store
  holds the emptied cart next to the wallet that was never debited.
\<close>

theorem checkout_partial_settlement:
  "checkout cfg0 (writes_ok\<lparr>userSave := False\<rparr>) db0 user0 =
     (Inl StoreRejection, db0\<lparr>carts := [cart0\<lparr>cartItems := []\<rparr>]\<rparr>)
   \<and> Cart_findOne db0 (email user0) = Some cart0
   \<and> Cart_findOne (db0\<lparr>carts := [cart0\<lparr>cartItems := []\<rparr>]\<rparr>) (email user0) =
       Some (cart0\<lparr>cartItems := []\<rparr>)
   \<and> User_findById (db0\<lparr>carts := [cart0\<lparr>cartItems := []\<rparr>]\<rparr>) (user_id user0) = Some user0
   \<and> walletMoney user0 = Finite 300"
  by (simp add: checkout_def getCartByUser_def hasSetNonDefaultAddress_def Cart_findOne_def
      User_findById_def Cart_save_def User_save_def save_doc_def Let_def example_defs)

text \<open>
  Claim C2, as the code has it. The settlement is two writes in sequence, the cart
  first. When the store rejects the write of the cart, \<open>checkout\<close> fails with that
  rejection and the store is unchanged. When it accepts the write of the cart and rejects
  the write of the user, \<open>checkout\<close> fails with that rejection, the cart of the user
  is stored empty and the stored users are unchanged, so the wallet is not debited. In no
  execution is a user written without the cart of the user being stored empty: the
  debit never stands without the cleared cart. The settlement is reached when the cart
  is found non-empty, the address is set and the test of the balance does not fail.
\<close>

theorem checkout_settlement_two_writes:
  "(Cart_findOne s (email user) = Some userCart \<and> cartItems userCart \<noteq> []
      \<and> address user \<noteq> default_address cfg
      \<and> \<not> js_lt (walletMoney user) (checkout_total (cartItems userCart) (Finite 0))
      \<and> \<not> cartSave p \<longrightarrow>
      checkout cfg p s user = (Inl StoreRejection, s))
   \<and> (Cart_findOne s (email user) = Some userCart \<and> cartItems userCart \<noteq> []
      \<and> address user \<noteq> default_address cfg
      \<and> \<not> js_lt (walletMoney user) (checkout_total (cartItems userCart) (Finite 0))
      \<and> cartSave p \<and> \<not> userSave p \<longrightarrow>
      checkout cfg p s user =
        (Inl StoreRejection,
         s\<lparr>carts := save_doc cart_id (userCart\<lparr>cartItems := []\<rparr>) (carts s)\<rparr>)
      \<and> Cart_findOne (snd (checkout cfg p s user)) (email user) =
          Some (userCart\<lparr>cartItems := []\<rparr>)
      \<and> users (snd (checkout cfg p s user)) = users s)
   \<and> (users (snd (checkout cfg p s user)) \<noteq> users s \<longrightarrow>
      (\<exists>c. Cart_findOne (snd (checkout cfg p s user)) (email user) = Some c
           \<and> cartItems c = []))"
proof -
  let ?c = "userCart\<lparr>cartItems := []\<rparr>"
  let ?s1 = "s\<lparr>carts := save_doc cart_id ?c (carts s)\<rparr>"
  have first: "checkout cfg p s user = (Inl StoreRejection, s)"
    if "Cart_findOne s (email user) = Some userCart" "cartItems userCart \<noteq> []"
      "address user \<noteq> default_address cfg"
      "\<not> js_lt (walletMoney user) (checkout_total (cartItems userCart) (Finite 0))"
      "\<not> cartSave p"
    using that
    by (simp add: checkout_def getCartByUser_def hasSetNonDefaultAddress_def
        Cart_save_def Let_def)
  have second: "checkout cfg p s user = (Inl StoreRejection, ?s1)
      \<and> Cart_findOne (snd (checkout cfg p s user)) (email user) = Some ?c
      \<and> users (snd (checkout cfg p s user)) = users s"
    if f: "Cart_findOne s (email user) = Some userCart" and rest: "cartItems userCart \<noteq> []"
      "address user \<noteq> default_address cfg"
      "\<not> js_lt (walletMoney user) (checkout_total (cartItems userCart) (Finite 0))"
      "cartSave p" "\<not> userSave p"
  proof -
    from f rest have run: "checkout cfg p s user = (Inl StoreRejection, ?s1)"
      by (simp add: checkout_def getCartByUser_def hasSetNonDefaultAddress_def
          Cart_save_def User_save_def Let_def)
    have c: "Cart_findOne ?s1 (email user) = Some ?c"
      using Cart_findOne_save [OF f, where c' = ?c] Cart_findOne_email [OF f] by simp
    show ?thesis using c unfolding run by simp
  qed
  have third: "\<exists>c. Cart_findOne (snd (checkout cfg p s user)) (email user) = Some c
      \<and> cartItems c = []"
    if ch: "users (snd (checkout cfg p s user)) \<noteq> users s"
  proof (cases "Cart_findOne s (email user)")
    case None
    with ch show ?thesis by (simp add: checkout_def getCartByUser_def)
  next
    case (Some found)
    let ?e = "found\<lparr>cartItems := []\<rparr>"
    let ?t1 = "s\<lparr>carts := save_doc cart_id ?e (carts s)\<rparr>"
    have c: "Cart_findOne ?t1 (email user) = Some ?e"
      using Cart_findOne_save [OF Some, where c' = ?e] Cart_findOne_email [OF Some] by simp
    from ch Some have "snd (checkout cfg p s user) =
        ?t1\<lparr>users := save_doc user_id
          (user\<lparr>walletMoney :=
             js_sub (walletMoney user) (checkout_total (cartItems found) (Finite 0))\<rparr>)
          (users ?t1)\<rparr>"
      by (simp add: checkout_def getCartByUser_def Cart_save_def
          User_save_def Let_def split: if_splits)
    then show ?thesis using c by (simp add: Cart_findOne_users)
  qed
  from first second third show ?thesis by blast
qed

text \<open>The three cases on the scenario of the specification.\<close>

theorem checkout_settlement_two_writes_witness:
  "Cart_findOne db0 (email user0) = Some cart0 \<and> cartItems cart0 \<noteq> []
   \<and> address user0 \<noteq> default_address cfg0
   \<and> \<not> js_lt (walletMoney user0) (checkout_total (cartItems cart0) (Finite 0))
   \<and> checkout cfg0 (writes_ok\<lparr>cartSave := False\<rparr>) db0 user0 = (Inl StoreRejection, db0)
   \<and> checkout cfg0 (writes_ok\<lparr>userSave := False\<rparr>) db0 user0 =
       (Inl StoreRejection,
        db0\<lparr>carts := save_doc cart_id (cart0\<lparr>cartItems := []\<rparr>) (carts db0)\<rparr>)
   \<and> users (snd (checkout cfg0 (writes_ok\<lparr>userSave := False\<rparr>) db0 user0)) = users db0
   \<and> users (snd (checkout cfg0 writes_ok db0 user0)) \<noteq> users db0
   \<and> (\<exists>c. Cart_findOne (snd (checkout cfg0 writes_ok db0 user0)) (email user0) = Some c
          \<and> cartItems c = [])"
proof -
  have h: "Cart_findOne db0 (email user0) = Some cart0" "cartItems cart0 \<noteq> []"
    "address user0 \<noteq> default_address cfg0"
    "\<not> js_lt (walletMoney user0) (checkout_total (cartItems cart0) (Finite 0))"
    by (simp_all add: Cart_findOne_def example_defs)
  have p1: "\<not> cartSave (writes_ok\<lparr>cartSave := False\<rparr>)" by simp
  have p2: "cartSave (writes_ok\<lparr>userSave := False\<rparr>)" "\<not> userSave (writes_ok\<lparr>userSave := False\<rparr>)"
    by (simp_all add: writes_ok_def)
  have ch: "users (snd (checkout cfg0 writes_ok db0 user0)) \<noteq> users db0"
    by (simp add: checkout_def getCartByUser_def hasSetNonDefaultAddress_def Cart_findOne_def
        Cart_save_def User_save_def save_doc_def js_sub_def Let_def example_defs)
  from checkout_settlement_two_writes [of db0 user0 cart0 cfg0 "writes_ok\<lparr>cartSave := False\<rparr>"] h p1
  have 1: "checkout cfg0 (writes_ok\<lparr>cartSave := False\<rparr>) db0 user0 = (Inl StoreRejection, db0)"
    by blast
  from checkout_settlement_two_writes [of db0 user0 cart0 cfg0 "writes_ok\<lparr>userSave := False\<rparr>"] h p2
  have 2: "checkout cfg0 (writes_ok\<lparr>userSave := False\<rparr>) db0 user0 =
       (Inl StoreRejection,
        db0\<lparr>carts := save_doc cart_id (cart0\<lparr>cartItems := []\<rparr>) (carts db0)\<rparr>)"
    "users (snd (checkout cfg0 (writes_ok\<lparr>userSave := False\<rparr>) db0 user0)) = users db0"
    by blast+
  from checkout_settlement_two_writes [of db0 user0 cart0 cfg0 writes_ok] ch
  have 3: "\<exists>c. Cart_findOne (snd (checkout cfg0 writes_ok db0 user0)) (email user0) = Some c
          \<and> cartItems c = []"
    by blast
  show ?thesis
    using h 1 2 ch 3 by (intro conjI)
qed

section \<open>Checkout: the order of the checks\<close>

text \<open>
  Claim C3. The checks of \<open>checkout\<close> run in a fixed order and the first that fails
  decides the error, whatever the later ones would have said: without a cart the error
  is 404; with a cart that exists and is empty it is the 400 (InvalidInput) of the
  empty cart, ``User's cart doesn't have any product'', for every address and every
  wallet; with a non-empty cart and the default address it is the 400 ``Address not set'',
  for every wallet and every price of the cart; only then does the balance decide, by
  the test \<^verbatim>\<open>walletMoney < total\<close> of the code. In each case the store is left as it
  was.
\<close>

theorem checkout_check_order:
  "(Cart_findOne s (email user) = None \<longrightarrow>
      checkout cfg p s user = (Inl (ApiError NOT_FOUND ''User does not have a cart''), s))
   \<and> (Cart_findOne s (email user) = Some userCart \<and> cartItems userCart = [] \<longrightarrow>
      checkout cfg p s user =
        (Inl (ApiError BAD_REQUEST ''User's cart doesn't have any product''), s))
   \<and> (Cart_findOne s (email user) = Some userCart \<and> cartItems userCart \<noteq> []
        \<and> address user = default_address cfg \<longrightarrow>
      checkout cfg p s user = (Inl (ApiError BAD_REQUEST ''Address not set''), s))
   \<and> (Cart_findOne s (email user) = Some userCart \<and> cartItems userCart \<noteq> []
        \<and> address user \<noteq> default_address cfg
        \<and> js_lt (walletMoney user) (checkout_total (cartItems userCart) (Finite 0)) \<longrightarrow>
      checkout cfg p s user =
        (Inl (ApiError BAD_REQUEST ''Wallet balance is insufficient''), s))"
  by (simp add: checkout_def getCartByUser_def hasSetNonDefaultAddress_def)

text \<open>
  The order at work: a user with the default address and an empty wallet gets the error
  of the missing cart, of the empty cart, or of the address, according to the cart alone.
\<close>

theorem checkout_check_order_witness:
  "Cart_findOne (db0\<lparr>carts := []\<rparr>)
      (email (user0\<lparr>walletMoney := Finite 0, address := ''ADDRESS_NOT_SET''\<rparr>)) = None
   \<and> checkout cfg0 writes_ok (db0\<lparr>carts := []\<rparr>)
         (user0\<lparr>walletMoney := Finite 0, address := ''ADDRESS_NOT_SET''\<rparr>) =
       (Inl (ApiError NOT_FOUND ''User does not have a cart''), db0\<lparr>carts := []\<rparr>)
   \<and> Cart_findOne (db0\<lparr>carts := [cart0\<lparr>cartItems := []\<rparr>]\<rparr>)
         (email (user0\<lparr>walletMoney := Finite 0, address := ''ADDRESS_NOT_SET''\<rparr>)) =
       Some (cart0\<lparr>cartItems := []\<rparr>)
   \<and> checkout cfg0 writes_ok (db0\<lparr>carts := [cart0\<lparr>cartItems := []\<rparr>]\<rparr>)
         (user0\<lparr>walletMoney := Finite 0, address := ''ADDRESS_NOT_SET''\<rparr>) =
       (Inl (ApiError BAD_REQUEST ''User's cart doesn't have any product''),
        db0\<lparr>carts := [cart0\<lparr>cartItems := []\<rparr>]\<rparr>)
   \<and> Cart_findOne db0
         (email (user0\<lparr>walletMoney := Finite 0, address := ''ADDRESS_NOT_SET''\<rparr>)) =
       Some cart0
   \<and> address (user0\<lparr>walletMoney := Finite 0, address := ''ADDRESS_NOT_SET''\<rparr>) =
       default_address cfg0
   \<and> checkout cfg0 writes_ok db0
         (user0\<lparr>walletMoney := Finite 0, address := ''ADDRESS_NOT_SET''\<rparr>) =
       (Inl (ApiError BAD_REQUEST ''Address not set''), db0)
   \<and> js_lt (walletMoney (user0\<lparr>walletMoney := Finite 249\<rparr>))
        (checkout_total (cartItems cart0) (Finite 0))
   \<and> checkout cfg0 writes_ok db0 (user0\<lparr>walletMoney := Finite 249\<rparr>) =
       (Inl (ApiError BAD_REQUEST ''Wallet balance is insufficient''), db0)"
proof -
  let ?u = "user0\<lparr>walletMoney := Finite 0, address := ''ADDRESS_NOT_SET''\<rparr>"
  let ?e = "cart0\<lparr>cartItems := []\<rparr>"
  have a: "Cart_findOne (db0\<lparr>carts := []\<rparr>) (email ?u) = None"
    by (simp add: Cart_findOne_def)
  have b: "Cart_findOne (db0\<lparr>carts := [?e]\<rparr>) (email ?u) = Some ?e" "cartItems ?e = []"
    by (simp_all add: Cart_findOne_def example_defs)
  have c: "Cart_findOne db0 (email ?u) = Some cart0" "cartItems cart0 \<noteq> []"
     "address ?u = default_address cfg0"
    by (simp_all add: Cart_findOne_def example_defs)
  have d: "Cart_findOne db0 (email (user0\<lparr>walletMoney := Finite 249\<rparr>)) = Some cart0"
    "address (user0\<lparr>walletMoney := Finite 249\<rparr>) \<noteq> default_address cfg0"
    "js_lt (walletMoney (user0\<lparr>walletMoney := Finite 249\<rparr>))
       (checkout_total (cartItems cart0) (Finite 0))"
    by (simp_all add: Cart_findOne_def example_defs)
  from checkout_check_order [of "db0\<lparr>carts := []\<rparr>" ?u cfg0 writes_ok cart0] a
  have 1: "checkout cfg0 writes_ok (db0\<lparr>carts := []\<rparr>) ?u =
       (Inl (ApiError NOT_FOUND ''User does not have a cart''), db0\<lparr>carts := []\<rparr>)"
    by blast
  from checkout_check_order [of "db0\<lparr>carts := [?e]\<rparr>" ?u cfg0 writes_ok ?e] b
  have 2: "checkout cfg0 writes_ok (db0\<lparr>carts := [?e]\<rparr>) ?u =
       (Inl (ApiError BAD_REQUEST ''User's cart doesn't have any product''),
        db0\<lparr>carts := [?e]\<rparr>)"
    by blast
  from checkout_check_order [of db0 ?u cfg0 writes_ok cart0] c
  have 3: "checkout cfg0 writes_ok db0 ?u = (Inl (ApiError BAD_REQUEST ''Address not set''), db0)"
    by blast
  from checkout_check_order [of db0 "user0\<lparr>walletMoney := Finite 249\<rparr>" cfg0 writes_ok cart0] c(2) d
  have 4: "checkout cfg0 writes_ok db0 (user0\<lparr>walletMoney := Finite 249\<rparr>) =
       (Inl (ApiError BAD_REQUEST ''Wallet balance is insufficient''), db0)"
    by blast
  show ?thesis
    using a b(1) c(1,3) d(3) 1 2 3 4 by (intro conjI)
qed

section \<open>Checkout: insufficient balance\<close>

text \<open>
  Claim C4 promises the failure to every wallet strictly below the sum of quantity
  times cost. The total the code compares with is rounded: with costs \<open>2\<^sup>5\<^sup>3\<close> and 1,
  each in quantity 1, the sum is \<open>2\<^sup>5\<^sup>3 + 1\<close> and the total computed is \<open>2\<^sup>5\<^sup>3\<close>. A wallet
  of \<open>2\<^sup>5\<^sup>3\<close> is below the sum, and \<open>checkout\<close> succeeds: the cart is emptied and the
  wallet is debited to 0.
\<close>

theorem checkout_rounded_total_within_wallet:
  "Cart_findOne (db0\<lparr>carts := [cart_odd]\<rparr>)
      (email (user0\<lparr>walletMoney := Finite 9007199254740992\<rparr>)) = Some cart_odd
   \<and> cartItems cart_odd \<noteq> []
   \<and> address (user0\<lparr>walletMoney := Finite 9007199254740992\<rparr>) \<noteq> default_address cfg0
   \<and> cart_price (cartItems cart_odd) = 9007199254740993
   \<and> walletMoney (user0\<lparr>walletMoney := Finite 9007199254740992\<rparr>) = Finite 9007199254740992
   \<and> checkout_total (cartItems cart_odd) (Finite 0) = Finite 9007199254740992
   \<and> checkout cfg0 writes_ok (db0\<lparr>carts := [cart_odd]\<rparr>)
        (user0\<lparr>walletMoney := Finite 9007199254740992\<rparr>) =
       (Inr (user0\<lparr>walletMoney := Finite 0\<rparr>),
        db0\<lparr>carts := [cart_odd\<lparr>cartItems := []\<rparr>],
            users := [user0\<lparr>walletMoney := Finite 0\<rparr>]\<rparr>)"
proof -
  have t: "checkout_total (cartItems cart_odd) (Finite 0) = Finite 9007199254740992"
    by (simp add: example_defs round_double_2p53_1)
  have pr: "cart_price (cartItems cart_odd) = 9007199254740993"
    by (simp add: cart_price_def finite_value_def example_defs)
  have f: "Cart_findOne (db0\<lparr>carts := [cart_odd]\<rparr>)
      (email (user0\<lparr>walletMoney := Finite 9007199254740992\<rparr>)) = Some cart_odd"
    by (simp add: Cart_findOne_def example_defs)
  have ne: "cartItems cart_odd \<noteq> []" by (simp add: example_defs)
  have ad: "address (user0\<lparr>walletMoney := Finite 9007199254740992\<rparr>) \<noteq> default_address cfg0"
    by (simp add: example_defs)
  have run: "checkout cfg0 writes_ok (db0\<lparr>carts := [cart_odd]\<rparr>)
        (user0\<lparr>walletMoney := Finite 9007199254740992\<rparr>) =
       (Inr (user0\<lparr>walletMoney := Finite 0\<rparr>),
        db0\<lparr>carts := [cart_odd\<lparr>cartItems := []\<rparr>],
            users := [user0\<lparr>walletMoney := Finite 0\<rparr>]\<rparr>)"
    using f ne ad
    by (simp add: checkout_def getCartByUser_def hasSetNonDefaultAddress_def t
        Cart_save_def User_save_def save_doc_def js_sub_def Let_def)
       (simp add: example_defs)
  show ?thesis
    using f ne ad pr t run by simp
qed

text \<open>
  Claim C4, as the code has it. For every user with a non-empty cart and a shipping
  address other than the default, whose wallet is strictly less than the total as
  \<open>checkout\<close> computes it in doubles, \<open>checkout\<close> fails with the status 400 (the
  specification's InvalidInput) and the message of the insufficient balance, which the
  code words ``Wallet balance is insufficient''. The store it leaves is the store it was
  given: neither the wallet of the user nor the line items of the cart are changed,
  whatever the store would have answered to a write.
\<close>

theorem checkout_insufficient_balance:
  assumes "Cart_findOne s (email user) = Some userCart"
    and "cartItems userCart \<noteq> []"
    and "address user \<noteq> default_address cfg"
    and "js_lt (walletMoney user) (checkout_total (cartItems userCart) (Finite 0))"
  shows "checkout cfg p s user =
           (Inl (ApiError BAD_REQUEST ''Wallet balance is insufficient''), s)"
  using assms
  by (simp add: checkout_def getCartByUser_def hasSetNonDefaultAddress_def)

text \<open>
  The scenario of the specification: a wallet of 200 against a cart whose total, as
  computed and as summed, is 250. The cart and the user found in the store afterwards
  are the ones stored before.
\<close>

theorem checkout_insufficient_balance_witness:
  "Cart_findOne db0 (email (user0\<lparr>walletMoney := Finite 200\<rparr>)) = Some cart0
   \<and> cartItems cart0 \<noteq> []
   \<and> address (user0\<lparr>walletMoney := Finite 200\<rparr>) \<noteq> default_address cfg0
   \<and> checkout_total (cartItems cart0) (Finite 0) = Finite 250
   \<and> cart_price (cartItems cart0) = 250
   \<and> js_lt (walletMoney (user0\<lparr>walletMoney := Finite 200\<rparr>))
        (checkout_total (cartItems cart0) (Finite 0))
   \<and> checkout cfg0 writes_ok db0 (user0\<lparr>walletMoney := Finite 200\<rparr>) =
        (Inl (ApiError BAD_REQUEST ''Wallet balance is insufficient''), db0)
   \<and> Cart_findOne db0 (email user0) = Some cart0
   \<and> User_findById db0 (user_id user0) = Some user0"
proof -
  have h1: "Cart_findOne db0 (email (user0\<lparr>walletMoney := Finite 200\<rparr>)) = Some cart0"
    by (simp add: Cart_findOne_def example_defs)
  have h2: "cartItems cart0 \<noteq> []" by (simp add: cart0_def)
  have h3: "address (user0\<lparr>walletMoney := Finite 200\<rparr>) \<noteq> default_address cfg0"
    by (simp add: user0_def cfg0_def)
  have t: "checkout_total (cartItems cart0) (Finite 0) = Finite 250"
    by (simp add: example_defs)
  have pr: "cart_price (cartItems cart0) = 250"
    by (simp add: cart_price_def finite_value_def example_defs)
  have h4: "js_lt (walletMoney (user0\<lparr>walletMoney := Finite 200\<rparr>))
      (checkout_total (cartItems cart0) (Finite 0))"
    by (simp add: t)
  have u: "User_findById db0 (user_id user0) = Some user0"
    by (simp add: User_findById_def example_defs)
  have e: "email (user0\<lparr>walletMoney := Finite 200\<rparr>) = email user0" by simp
  have c: "Cart_findOne db0 (email user0) = Some cart0"
    using h1 unfolding e .
  show ?thesis
    using checkout_insufficient_balance [OF h1 h2 h3 h4, of writes_ok] h1 h2 h3 t pr h4 u c
    by (intro conjI)
qed

section \<open>The uniqueness invariant\<close>

text \<open>
  Claim C5. The uniqueness invariant is to be preserved by every cart operation, and
  \<open>addProductToCart\<close> is documented to refuse a product that is already in the cart.
  It looks the product up by the identifier cast to an ObjectId, which reads the
  hexadecimal digits in either case, and searches the cart for the string as it was
  given. For the identifier of a product of the cart written in upper case the lookup
  finds the product, the search of the cart finds nothing, and the product is appended a
  second time: the cart returned and stored has two line items of one product.
\<close>

theorem addProductToCart_upper_case_duplicate:
  "Cart_findOne db0 (email user0) = Some cart0
   \<and> uniqueProducts cart0
   \<and> list_ex (\<lambda>items. product_id (product items) = idA) (cartItems cart0)
   \<and> Product_findById db0 idA_upper = Inr (Some productA)
   \<and> product_id productA = idA
   \<and> addProductToCart writes_ok db0 user0 idA_upper (Finite 1) =
       (Inr (cart0\<lparr>cartItems := cartItems cart0 @ [\<lparr>product = productA, quantity = Finite 1\<rparr>]\<rparr>),
        db0\<lparr>carts :=
          [cart0\<lparr>cartItems := cartItems cart0 @ [\<lparr>product = productA, quantity = Finite 1\<rparr>]\<rparr>]\<rparr>)
   \<and> \<not> uniqueProducts
         (cart0\<lparr>cartItems := cartItems cart0 @ [\<lparr>product = productA, quantity = Finite 1\<rparr>]\<rparr>)"
  by (simp add: run_defs uniqueProducts_def example_defs id_facts)

section \<open>Adding a product\<close>

text \<open>
  Claim C6 says that the addition fails with the error of the product already in the
  cart for every cart that holds a line item of that product. The code looks the
  product up in the catalog first: for a product that is in the cart and no longer in the
  catalog, the error is the one of the missing product.
\<close>

theorem addProductToCart_missing_product:
  "Cart_findOne (db0\<lparr>products := [productB]\<rparr>) (email user0) = Some cart0
   \<and> list_ex (\<lambda>items. product_id (product items) = idA) (cartItems cart0)
   \<and> Product_findById (db0\<lparr>products := [productB]\<rparr>) idA = Inr None
   \<and> addProductToCart writes_ok (db0\<lparr>products := [productB]\<rparr>) user0 idA (Finite 1) =
       (Inl (ApiError BAD_REQUEST ''Product doesn't exist in database''),
        db0\<lparr>products := [productB]\<rparr>)
   \<and> ''Product doesn't exist in database'' \<noteq>
       ''Product already in cart. Use the cart sidebar to update or remove product from cart''"
  by (simp add: run_defs example_defs id_facts)

text \<open>
  Claim C6, as the code has it. For every user with a cart and every product of the
  catalog: when the cart already holds a line item of that product, \<open>addProductToCart\<close>
  fails with the error of the product already in the cart (which the code gives the
  status 400, as it does its InvalidInput errors) and leaves the store, and so the cart
  with its single entry for the product, unchanged; otherwise, when the store accepts the
  write, it returns and stores the cart with the new line item of that product and
  quantity appended at the end of the item list.
\<close>

theorem addProductToCart_existing_cart:
  assumes "Cart_findOne s (email user) = Some CartDoc"
    and "Product_findById s productId = Inr (Some ProductDoc)"
  shows "(list_ex (\<lambda>items. product_id (product items) = productId) (cartItems CartDoc) \<longrightarrow>
           addProductToCart p s user productId qty =
             (Inl (ApiError BAD_REQUEST
                ''Product already in cart. Use the cart sidebar to update or remove product from cart''),
              s))
       \<and> (\<not> list_ex (\<lambda>items. product_id (product items) = productId) (cartItems CartDoc)
            \<and> cartSave p \<longrightarrow>
           fst (addProductToCart p s user productId qty) =
             Inr (CartDoc\<lparr>cartItems :=
                    cartItems CartDoc @ [\<lparr>product = ProductDoc, quantity = qty\<rparr>]\<rparr>)
           \<and> Cart_findOne (snd (addProductToCart p s user productId qty)) (email user) =
             Some (CartDoc\<lparr>cartItems :=
                    cartItems CartDoc @ [\<lparr>product = ProductDoc, quantity = qty\<rparr>]\<rparr>))"
proof -
  let ?c = "CartDoc\<lparr>cartItems := cartItems CartDoc @ [\<lparr>product = ProductDoc, quantity = qty\<rparr>]\<rparr>"
  have c: "Cart_findOne (s\<lparr>carts := save_doc cart_id ?c (carts s)\<rparr>) (email user) = Some ?c"
    using Cart_findOne_save [OF assms(1), where c' = ?c] Cart_findOne_email [OF assms(1)]
    by simp
  have dup: "addProductToCart p s user productId qty =
      (Inl (ApiError BAD_REQUEST
         ''Product already in cart. Use the cart sidebar to update or remove product from cart''),
       s)"
    if "list_ex (\<lambda>items. product_id (product items) = productId) (cartItems CartDoc)"
    using assms that by (simp add: addProductToCart_def)
  have app: "addProductToCart p s user productId qty =
      (Inr ?c, s\<lparr>carts := save_doc cart_id ?c (carts s)\<rparr>)"
    if "\<not> list_ex (\<lambda>items. product_id (product items) = productId) (cartItems CartDoc)"
      "cartSave p"
    using assms that by (simp add: addProductToCart_def Cart_save_def)
  show ?thesis
    using dup app c by (intro conjI impI) simp_all
qed

text \<open>Adding a product of the cart a second time, and adding a new one.\<close>

theorem addProductToCart_existing_cart_witness:
  "Cart_findOne db0 (email user0) = Some cart0
   \<and> Product_findById db0 idA = Inr (Some productA)
   \<and> list_ex (\<lambda>items. product_id (product items) = idA) (cartItems cart0)
   \<and> addProductToCart writes_ok db0 user0 idA (Finite 7) =
       (Inl (ApiError BAD_REQUEST
          ''Product already in cart. Use the cart sidebar to update or remove product from cart''),
        db0)
   \<and> Product_findById db0 idC = Inr (Some productC)
   \<and> \<not> list_ex (\<lambda>items. product_id (product items) = idC) (cartItems cart0)
   \<and> cartSave writes_ok
   \<and> fst (addProductToCart writes_ok db0 user0 idC (Finite 3)) =
       Inr (cart0\<lparr>cartItems := cartItems cart0 @ [\<lparr>product = productC, quantity = Finite 3\<rparr>]\<rparr>)
   \<and> Cart_findOne (snd (addProductToCart writes_ok db0 user0 idC (Finite 3))) (email user0) =
       Some (cart0\<lparr>cartItems := cartItems cart0 @ [\<lparr>product = productC, quantity = Finite 3\<rparr>]\<rparr>)"
proof -
  have f: "Cart_findOne db0 (email user0) = Some cart0"
    by (simp add: Cart_findOne_def example_defs)
  have pa: "Product_findById db0 idA = Inr (Some productA)"
    and pc: "Product_findById db0 idC = Inr (Some productC)"
    by (simp_all add: Product_findById_def example_defs id_facts)
  have ina: "list_ex (\<lambda>items. product_id (product items) = idA) (cartItems cart0)"
    and notc: "\<not> list_ex (\<lambda>items. product_id (product items) = idC) (cartItems cart0)"
    by (simp_all add: example_defs id_facts)
  have w: "cartSave writes_ok" by (simp add: writes_ok_def)
  from addProductToCart_existing_cart [OF f pa, of writes_ok "Finite 7"] ina
  have 1: "addProductToCart writes_ok db0 user0 idA (Finite 7) =
       (Inl (ApiError BAD_REQUEST
          ''Product already in cart. Use the cart sidebar to update or remove product from cart''),
        db0)"
    by blast
  from addProductToCart_existing_cart [OF f pc, of writes_ok "Finite 3"] notc w
  have 2: "fst (addProductToCart writes_ok db0 user0 idC (Finite 3)) =
       Inr (cart0\<lparr>cartItems := cartItems cart0 @ [\<lparr>product = productC, quantity = Finite 3\<rparr>]\<rparr>)"
    "Cart_findOne (snd (addProductToCart writes_ok db0 user0 idC (Finite 3))) (email user0) =
       Some (cart0\<lparr>cartItems := cartItems cart0 @ [\<lparr>product = productC, quantity = Finite 3\<rparr>]\<rparr>)"
    by blast+
  show ?thesis
    using f pa ina 1 pc notc w 2 by (intro conjI)
qed

section \<open>Updating a quantity\<close>

text \<open>
  Claim C7 says that the update overwrites the quantity for every cart that holds a line
  item of the product. The code looks the product up in the catalog before it looks
  into the cart: for a product that is in the cart and no longer in the catalog the
  update fails with the error of the missing product and the quantity stays as it was.
\<close>

theorem updateProductInCart_missing_product:
  "Cart_findOne (db0\<lparr>products := [productB]\<rparr>) (email user0) = Some cart0
   \<and> list_ex (\<lambda>items. product_id (product items) = idA) (cartItems cart0)
   \<and> Product_findById (db0\<lparr>products := [productB]\<rparr>) idA = Inr None
   \<and> updateProductInCart writes_ok (db0\<lparr>products := [productB]\<rparr>) user0 idA (Finite 5) =
       (Inl (ApiError BAD_REQUEST ''Product doesn't exist in database''),
        db0\<lparr>products := [productB]\<rparr>)
   \<and> cartItems cart0 ! 0 = \<lparr>product = productA, quantity = Finite 2\<rparr>"
  by (simp add: run_defs example_defs id_facts)

text \<open>
  Claim C7, as the code has it. For every cart that holds a line item of the product,
  when the product is in the catalog and the store accepts the write,
  \<open>updateProductInCart\<close> returns and stores a cart with as many line items, in which
  every line item of the product is the old one with the quantity replaced by the new
  value: the old quantity plays no part.
\<close>

theorem updateProductInCart_overwrites:
  assumes "Cart_findOne s (email user) = Some userCart"
    and "Product_findById s productId = Inr (Some ProductDoc)"
    and "list_ex (\<lambda>items. product_id (product items) = productId) (cartItems userCart)"
    and "cartSave p"
  shows "\<exists>c'. fst (updateProductInCart p s user productId qty) = Inr c'
         \<and> Cart_findOne (snd (updateProductInCart p s user productId qty)) (email user) = Some c'
         \<and> length (cartItems c') = length (cartItems userCart)
         \<and> (\<forall>i < length (cartItems userCart).
              product_id (product (cartItems userCart ! i)) = productId \<longrightarrow>
              cartItems c' ! i = (cartItems userCart ! i)\<lparr>quantity := qty\<rparr>)"
proof -
  let ?c = "userCart\<lparr>cartItems :=
      map (\<lambda>items. if product_id (product items) = productId
                    then items\<lparr>quantity := qty\<rparr> else items) (cartItems userCart)\<rparr>"
  from find_list_ex [OF assms(3)] obtain updateProduct
    where f: "find (\<lambda>items. product_id (product items) = productId) (cartItems userCart) =
      Some updateProduct"
    by blast
  have run: "updateProductInCart p s user productId qty =
      (Inr ?c, s\<lparr>carts := save_doc cart_id ?c (carts s)\<rparr>)"
    using assms(1,2,4) f by (simp add: updateProductInCart_def Cart_save_def)
  have c: "Cart_findOne (s\<lparr>carts := save_doc cart_id ?c (carts s)\<rparr>) (email user) = Some ?c"
    using Cart_findOne_save [OF assms(1), where c' = ?c] Cart_findOne_email [OF assms(1)]
    by simp
  show ?thesis
    unfolding run using c by (intro exI[of _ ?c]) simp
qed

text \<open>
  The scenario of the specification: the product is added with quantity 2 to a user
  without a cart, then updated to quantity 5; the cart holds the single line item with
  quantity 5.
\<close>

theorem updateProductInCart_overwrites_witness:
  "addProductToCart writes_ok (db0\<lparr>carts := []\<rparr>) user0 idA (Finite 2) =
       (Inr (cart0\<lparr>cartItems := [\<lparr>product = productA, quantity = Finite 2\<rparr>]\<rparr>),
        db0\<lparr>carts := [cart0\<lparr>cartItems := [\<lparr>product = productA, quantity = Finite 2\<rparr>]\<rparr>]\<rparr>)
   \<and> Cart_findOne (db0\<lparr>carts := [cart0\<lparr>cartItems := [\<lparr>product = productA, quantity = Finite 2\<rparr>]\<rparr>]\<rparr>)
        (email user0) = Some (cart0\<lparr>cartItems := [\<lparr>product = productA, quantity = Finite 2\<rparr>]\<rparr>)
   \<and> Product_findById (db0\<lparr>carts := [cart0\<lparr>cartItems := [\<lparr>product = productA, quantity = Finite 2\<rparr>]\<rparr>]\<rparr>)
        idA = Inr (Some productA)
   \<and> cartSave writes_ok
   \<and> (\<exists>c'. fst (updateProductInCart writes_ok
          (db0\<lparr>carts := [cart0\<lparr>cartItems := [\<lparr>product = productA, quantity = Finite 2\<rparr>]\<rparr>]\<rparr>)
          user0 idA (Finite 5)) = Inr c'
        \<and> cartItems c' = [\<lparr>product = productA, quantity = Finite 5\<rparr>])"
proof -
  let ?c2 = "cart0\<lparr>cartItems := [\<lparr>product = productA, quantity = Finite 2\<rparr>]\<rparr>"
  let ?s2 = "db0\<lparr>carts := [?c2]\<rparr>"
  have a: "addProductToCart writes_ok (db0\<lparr>carts := []\<rparr>) user0 idA (Finite 2) = (Inr ?c2, ?s2)"
    by (simp add: run_defs example_defs id_facts)
  have h1: "Cart_findOne ?s2 (email user0) = Some ?c2"
    by (simp add: Cart_findOne_def example_defs)
  have h2: "Product_findById ?s2 idA = Inr (Some productA)"
    by (simp add: Product_findById_def example_defs id_facts)
  have h3: "list_ex (\<lambda>items. product_id (product items) = idA) (cartItems ?c2)"
    by (simp add: example_defs)
  have h4: "cartSave writes_ok" by (simp add: writes_ok_def)
  from updateProductInCart_overwrites [OF h1 h2 h3 h4, of "Finite 5"]
  obtain c' where c': "fst (updateProductInCart writes_ok ?s2 user0 idA (Finite 5)) = Inr c'"
    "length (cartItems c') = length (cartItems ?c2)"
    "\<forall>i < length (cartItems ?c2).
       product_id (product (cartItems ?c2 ! i)) = idA \<longrightarrow>
       cartItems c' ! i = (cartItems ?c2 ! i)\<lparr>quantity := Finite 5\<rparr>"
    by blast
  from c'(3) have "cartItems c' ! 0 = \<lparr>product = productA, quantity = Finite 5\<rparr>"
    by (simp add: example_defs)
  moreover from c'(2) have "length (cartItems c') = 1" by simp
  ultimately have "cartItems c' = [\<lparr>product = productA, quantity = Finite 5\<rparr>]"
    by (cases "cartItems c'") auto
  with c'(1) have "\<exists>c'. fst (updateProductInCart writes_ok ?s2 user0 idA (Finite 5)) = Inr c'
        \<and> cartItems c' = [\<lparr>product = productA, quantity = Finite 5\<rparr>]"
    by blast
  then show ?thesis
    using a h1 h2 h4 by (intro conjI)
qed

section \<open>Deleting a product\<close>

text \<open>
  Claim C8. For every cart that holds a line item of the product, when the store accepts
  the write, \<open>deleteProductFromCart\<close> removes exactly one line item, at a position
  where the product identifier matches (the last such position, which under the
  uniqueness invariant is the only one): the cart returned and stored is the old one
  without the element at that position, so every other line item is kept in place and
  the length decreases by exactly one. The position is found by the identifier, never by
  the quantity.
\<close>

theorem deleteProductFromCart_removes_one:
  assumes "Cart_findOne s (email user) = Some userCart"
    and "list_ex (\<lambda>items. product_id (product items) = productId) (cartItems userCart)"
    and "cartSave p"
  shows "\<exists>j < length (cartItems userCart).
           product_id (product (cartItems userCart ! j)) = productId
         \<and> (\<forall>k. j < k \<and> k < length (cartItems userCart) \<longrightarrow>
               product_id (product (cartItems userCart ! k)) \<noteq> productId)
         \<and> fst (deleteProductFromCart p s user productId) =
             Inr (userCart\<lparr>cartItems :=
                    take j (cartItems userCart) @ drop (Suc j) (cartItems userCart)\<rparr>)
         \<and> Cart_findOne (snd (deleteProductFromCart p s user productId)) (email user) =
             Some (userCart\<lparr>cartItems :=
                    take j (cartItems userCart) @ drop (Suc j) (cartItems userCart)\<rparr>)
         \<and> Suc (length (take j (cartItems userCart) @ drop (Suc j) (cartItems userCart))) =
             length (cartItems userCart)"
proof -
  let ?xs = "cartItems userCart"
  from forEach_index_last [OF assms(2), of 0 "- 1"]
  obtain j where j: "j < length ?xs" "product_id (product (?xs ! j)) = productId"
    "forEach_index productId ?xs 0 (- 1) = int j"
    and last: "\<forall>k. j < k \<and> k < length ?xs \<longrightarrow> product_id (product (?xs ! k)) \<noteq> productId"
    by auto
  let ?c = "userCart\<lparr>cartItems := take j ?xs @ drop (Suc j) ?xs\<rparr>"
  from find_list_ex [OF assms(2)] obtain deleteProduct
    where f: "find (\<lambda>items. product_id (product items) = productId) ?xs = Some deleteProduct"
    by blast
  have run: "deleteProductFromCart p s user productId =
      (Inr ?c, s\<lparr>carts := save_doc cart_id ?c (carts s)\<rparr>)"
    using assms(1,3) f j
    by (simp add: deleteProductFromCart_def Cart_save_def splice1_nat)
  have c: "Cart_findOne (s\<lparr>carts := save_doc cart_id ?c (carts s)\<rparr>) (email user) = Some ?c"
    using Cart_findOne_save [OF assms(1), where c' = ?c] Cart_findOne_email [OF assms(1)]
    by simp
  have l: "Suc (length (take j ?xs @ drop (Suc j) ?xs)) = length ?xs"
    using j(1) by simp
  show ?thesis
    using j(1,2) last c l unfolding run by (intro exI[of _ j]) simp
qed

text \<open>Two line items of the same quantity: the one of the product given is removed.\<close>

theorem deleteProductFromCart_removes_one_witness:
  "Cart_findOne (db0\<lparr>carts := [cart0\<lparr>cartItems :=
        [\<lparr>product = productA, quantity = Finite 2\<rparr>, \<lparr>product = productB, quantity = Finite 2\<rparr>]\<rparr>]\<rparr>)
      (email user0) =
     Some (cart0\<lparr>cartItems :=
        [\<lparr>product = productA, quantity = Finite 2\<rparr>, \<lparr>product = productB, quantity = Finite 2\<rparr>]\<rparr>)
   \<and> cartSave writes_ok
   \<and> fst (deleteProductFromCart writes_ok
        (db0\<lparr>carts := [cart0\<lparr>cartItems :=
           [\<lparr>product = productA, quantity = Finite 2\<rparr>, \<lparr>product = productB, quantity = Finite 2\<rparr>]\<rparr>]\<rparr>)
        user0 idA) =
       Inr (cart0\<lparr>cartItems := [\<lparr>product = productB, quantity = Finite 2\<rparr>]\<rparr>)
   \<and> Cart_findOne (snd (deleteProductFromCart writes_ok
        (db0\<lparr>carts := [cart0\<lparr>cartItems :=
           [\<lparr>product = productA, quantity = Finite 2\<rparr>, \<lparr>product = productB, quantity = Finite 2\<rparr>]\<rparr>]\<rparr>)
        user0 idA)) (email user0) =
       Some (cart0\<lparr>cartItems := [\<lparr>product = productB, quantity = Finite 2\<rparr>]\<rparr>)"
proof -
  let ?xs = "[\<lparr>product = productA, quantity = Finite 2\<rparr>, \<lparr>product = productB, quantity = Finite 2\<rparr>]"
  let ?c = "cart0\<lparr>cartItems := ?xs\<rparr>"
  let ?s = "db0\<lparr>carts := [?c]\<rparr>"
  have h1: "Cart_findOne ?s (email user0) = Some ?c"
    by (simp add: Cart_findOne_def example_defs)
  have h2: "list_ex (\<lambda>items. product_id (product items) = idA) (cartItems ?c)"
    by (simp add: example_defs)
  have h3: "cartSave writes_ok" by (simp add: writes_ok_def)
  from deleteProductFromCart_removes_one [OF h1 h2 h3]
  obtain j where j: "j < length (cartItems ?c)"
    "product_id (product (cartItems ?c ! j)) = idA"
    "fst (deleteProductFromCart writes_ok ?s user0 idA) =
       Inr (?c\<lparr>cartItems := take j (cartItems ?c) @ drop (Suc j) (cartItems ?c)\<rparr>)"
    "Cart_findOne (snd (deleteProductFromCart writes_ok ?s user0 idA)) (email user0) =
       Some (?c\<lparr>cartItems := take j (cartItems ?c) @ drop (Suc j) (cartItems ?c)\<rparr>)"
    by blast
  from j(1) have "j = 0 \<or> j = 1" by auto
  with j(2) have j0: "j = 0" by (auto simp: example_defs id_facts)
  have e: "?c\<lparr>cartItems := take j (cartItems ?c) @ drop (Suc j) (cartItems ?c)\<rparr> =
      cart0\<lparr>cartItems := [\<lparr>product = productB, quantity = Finite 2\<rparr>]\<rparr>"
    by (simp add: j0)
  show ?thesis
    using h1 h3 j(3,4) unfolding e by (intro conjI)
qed

section \<open>Deleting without a cart\<close>

text \<open>
  Claim C9. For a user without a cart, \<open>deleteProductFromCart\<close> is documented to fail
  with the status 400 and the message ``User does not have a cart''. The code throws the
  status 400 with the longer message of \<open>updateProductInCart\<close>; the short message is
  the one \<open>getCartByUser\<close> throws, with the status 404.
\<close>

theorem deleteProductFromCart_no_cart_message:
  "Cart_findOne (db0\<lparr>carts := []\<rparr>) (email user0) = None
   \<and> deleteProductFromCart writes_ok (db0\<lparr>carts := []\<rparr>) user0 idA =
       (Inl (ApiError BAD_REQUEST
          ''User does not have a cart. Use POST to create cart and add a product''),
        db0\<lparr>carts := []\<rparr>)
   \<and> ''User does not have a cart. Use POST to create cart and add a product'' \<noteq>
       ''User does not have a cart''
   \<and> getCartByUser (db0\<lparr>carts := []\<rparr>) user0 =
       Inl (ApiError NOT_FOUND ''User does not have a cart'')"
  by (simp add: deleteProductFromCart_def getCartByUser_def Cart_findOne_def)

section \<open>The frame of an update\<close>

text \<open>
  Claim C10. A successful \<open>updateProductInCart\<close> changes only the quantity of the
  line items of the product: the number of line items, their order, the product
  snapshots with their costs, and the line items of other products are as before; so
  are the identifier and the owner of the cart, the users and the catalog. The cart
  returned is the cart found for the user afterwards.
\<close>

theorem updateProductInCart_frame:
  assumes "Cart_findOne s (email user) = Some userCart"
    and "updateProductInCart p s user productId qty = (Inr c', s')"
  shows "length (cartItems c') = length (cartItems userCart)
       \<and> map product (cartItems c') = map product (cartItems userCart)
       \<and> (\<forall>i < length (cartItems userCart).
            product_id (product (cartItems userCart ! i)) \<noteq> productId \<longrightarrow>
            cartItems c' ! i = cartItems userCart ! i)
       \<and> (\<forall>i < length (cartItems userCart).
            product_id (product (cartItems userCart ! i)) = productId \<longrightarrow>
            cartItems c' ! i = (cartItems userCart ! i)\<lparr>quantity := qty\<rparr>)
       \<and> cart_id c' = cart_id userCart \<and> cart_email c' = cart_email userCart
       \<and> Cart_findOne s' (email user) = Some c'
       \<and> users s' = users s \<and> products s' = products s"
proof -
  let ?upd = "\<lambda>items. if product_id (product items) = productId
                       then items\<lparr>quantity := qty\<rparr> else items"
  let ?c = "userCart\<lparr>cartItems := map ?upd (cartItems userCart)\<rparr>"
  from assms have run: "c' = ?c" "s' = s\<lparr>carts := save_doc cart_id ?c (carts s)\<rparr>"
    by (auto simp: updateProductInCart_def Cart_save_def
        split: option.splits sum.splits if_splits)
  have c: "Cart_findOne (s\<lparr>carts := save_doc cart_id ?c (carts s)\<rparr>) (email user) = Some ?c"
    using Cart_findOne_save [OF assms(1), where c' = ?c] Cart_findOne_email [OF assms(1)]
    by simp
  have m: "map product (map ?upd (cartItems userCart)) = map product (cartItems userCart)"
    by (induction "cartItems userCart") auto
  show ?thesis
    unfolding run using c m by simp
qed

text \<open>Updating the first of the two line items of the scenario.\<close>

theorem updateProductInCart_frame_witness:
  "Cart_findOne db0 (email user0) = Some cart0
   \<and> updateProductInCart writes_ok db0 user0 idA (Finite 5) =
       (Inr (cart0\<lparr>cartItems := [\<lparr>product = productA, quantity = Finite 5\<rparr>,
                                   \<lparr>product = productB, quantity = Finite 1\<rparr>]\<rparr>),
        db0\<lparr>carts := [cart0\<lparr>cartItems := [\<lparr>product = productA, quantity = Finite 5\<rparr>,
                                   \<lparr>product = productB, quantity = Finite 1\<rparr>]\<rparr>]\<rparr>)
   \<and> length (cartItems (cart0\<lparr>cartItems := [\<lparr>product = productA, quantity = Finite 5\<rparr>,
                                   \<lparr>product = productB, quantity = Finite 1\<rparr>]\<rparr>)) = length (cartItems cart0)
   \<and> map product (cartItems (cart0\<lparr>cartItems := [\<lparr>product = productA, quantity = Finite 5\<rparr>,
                                   \<lparr>product = productB, quantity = Finite 1\<rparr>]\<rparr>)) =
       map product (cartItems cart0)
   \<and> Cart_findOne (db0\<lparr>carts := [cart0\<lparr>cartItems := [\<lparr>product = productA, quantity = Finite 5\<rparr>,
                                   \<lparr>product = productB, quantity = Finite 1\<rparr>]\<rparr>]\<rparr>) (email user0) =
       Some (cart0\<lparr>cartItems := [\<lparr>product = productA, quantity = Finite 5\<rparr>,
                                   \<lparr>product = productB, quantity = Finite 1\<rparr>]\<rparr>)"
proof -
  have f: "Cart_findOne db0 (email user0) = Some cart0"
    by (simp add: Cart_findOne_def example_defs)
  have u: "updateProductInCart writes_ok db0 user0 idA (Finite 5) =
       (Inr (cart0\<lparr>cartItems := [\<lparr>product = productA, quantity = Finite 5\<rparr>,
                                   \<lparr>product = productB, quantity = Finite 1\<rparr>]\<rparr>),
        db0\<lparr>carts := [cart0\<lparr>cartItems := [\<lparr>product = productA, quantity = Finite 5\<rparr>,
                                   \<lparr>product = productB, quantity = Finite 1\<rparr>]\<rparr>]\<rparr>)"
    by (simp add: run_defs example_defs id_facts)
  note t = updateProductInCart_frame [OF f u]
  show ?thesis
    using f u t by (intro conjI) blast+
qed

end
